theory Spec2Isabelle
  imports Main "HOL-Library.Sublist"
begin

section \<open>Clang module dependency scanning: the bridging layer\<close>

text \<open>
  A shallow embedding of \<^verbatim>\<open>lib/ClangImporter/ClangModuleDependencyScanner.cpp\<close>.
  A \<^verbatim>\<open>std::vector<std::string>\<close> is a \<open>string list\<close>, an iterator is the index it
  points at (the end iterator is the length), an assertion that fails, a read outside a
  vector and \<^verbatim>\<open>llvm_unreachable\<close> are error values, and what a function writes to
  the diagnostics engine is the \<open>Diags\<close> field of the context it returns.
\<close>

subsection \<open>Errors, diagnostics and the compilation context\<close>

datatype error = AssertionFailed | OutOfBoundsRead | Unreachable

datatype Diagnostic = clang_dependency_scan_error string

record FrameworkSearchPath =
  Path :: string
  IsSystem :: bool

text \<open>
  The fields of \<^verbatim>\<open>ASTContext\<close> that the file reads. \<open>ClangDriverArguments\<close> is the value
  of \<^verbatim>\<open>ClangImporter::getClangDriverArguments(ctx)\<close>, \<open>CurrentWorkingDirectory\<close> that of
  \<^verbatim>\<open>ctx.SourceMgr.getFileSystem()->getCurrentWorkingDirectory().get()\<close>,
  \<open>CASConfigurationFlags\<close> the strings \<^verbatim>\<open>ctx.CASOpts.enumerateCASConfigurationFlags\<close>
  enumerates and \<open>APINotesVersionString\<close> that of
  \<^verbatim>\<open>ctx.LangOpts.EffectiveLanguageVersion.asAPINotesVersionString()\<close>: these functions
  are declared outside this file, so their values are fields that range over every list
  and string.
\<close>

record ASTContext =
  FrameworkSearchPaths :: "FrameworkSearchPath list"
  ImportSearchPaths :: "string list"
  ScannerPrefixMapper :: "string list"
  VFSOverlayFiles :: "string list"
  ClangDriverArguments :: "string list"
  CurrentWorkingDirectory :: string
  CASConfigurationFlags :: "string list"
  APINotesVersionString :: string
  Diags :: "Diagnostic list"

definition diagnose :: "ASTContext \<Rightarrow> Diagnostic \<Rightarrow> ASTContext" where
  "diagnose ctx d = ctx\<lparr>Diags := Diags ctx @ [d]\<rparr>"

subsection \<open>Iterators\<close>

text \<open>
  \<^verbatim>\<open>std::find_if(first, last, p)\<close>: the index of the first element that satisfies \<open>p\<close>,
  the length (the end iterator) when there is none. \<^verbatim>\<open>std::find\<close> compares with a value.
\<close>

fun std_find_if :: "('a \<Rightarrow> bool) \<Rightarrow> 'a list \<Rightarrow> nat" where
  "std_find_if p [] = 0"
| "std_find_if p (x # xs) = (if p x then 0 else Suc (std_find_if p xs))"

definition std_find :: "'a list \<Rightarrow> 'a \<Rightarrow> nat" where
  "std_find xs v = std_find_if (\<lambda>x. x = v) xs"

text \<open>
  A reverse iterator over a vector is its distance from \<^verbatim>\<open>rbegin()\<close>, an integer:
  \<^verbatim>\<open>rbegin()\<close> is 0, \<^verbatim>\<open>rend()\<close> is the size, \<^verbatim>\<open>it - 1\<close> is one less and lies before
  \<^verbatim>\<open>rbegin()\<close> when \<^verbatim>\<open>it\<close> is \<^verbatim>\<open>rbegin()\<close>. Dereferencing reads the reversed vector at that
  distance; outside the vector the read is undefined behaviour, the error
  \<open>OutOfBoundsRead\<close> here.
\<close>

definition rdereference :: "'a list \<Rightarrow> int \<Rightarrow> error + 'a" where
  "rdereference xs it =
     (if 0 \<le> it \<and> it < int (length xs) then Inr (rev xs ! nat it) else Inl OutOfBoundsRead)"

subsection \<open>Working-directory resolution\<close>

definition computeClangWorkingDirectory ::
    "string list \<Rightarrow> ASTContext \<Rightarrow> error + (ASTContext \<times> string option)" where
  "computeClangWorkingDirectory commandLineArgs ctx =
     (let rend = int (length commandLineArgs);
          clangWorkingDirPos = int (std_find (rev commandLineArgs) ''-working-directory'')
      in if clangWorkingDirPos = rend then Inr (ctx, Some (CurrentWorkingDirectory ctx))
         else if clangWorkingDirPos - 1 = rend
           then Inr (diagnose ctx (clang_dependency_scan_error
                                      ''Missing '-working-directory' argument''), None)
         else (case rdereference commandLineArgs (clangWorkingDirPos - 1) of
                 Inl e \<Rightarrow> Inl e
               | Inr workingDir \<Rightarrow> Inr (ctx, Some workingDir)))"

subsection \<open>Output paths\<close>

record ModuleID =
  ModuleName :: string
  ContextHash :: string

datatype ModuleOutputKind =
  ModuleFile | DependencyFile | DependencyTargets | DiagnosticSerializationFile

datatype file_type = TY_ClangModuleFile | TY_Dependencies | TY_SerializedDiagnostics

text \<open>
  The path functions of LLVM's support library and the table of file-type extensions
  are declared outside this file; the model takes them as parameters, so that what is
  proved holds for every path style and every extension table.
\<close>

record PathLibrary =
  path_append :: "string \<Rightarrow> string \<Rightarrow> string"
  replace_extension :: "string \<Rightarrow> string \<Rightarrow> string"
  getExtension :: "file_type \<Rightarrow> string"

definition moduleCacheRelativeLookupModuleOutput ::
    "PathLibrary \<Rightarrow> ModuleID \<Rightarrow> ModuleOutputKind \<Rightarrow> string \<Rightarrow> string" where
  "moduleCacheRelativeLookupModuleOutput lib MID MOK moduleCachePath =
     (let outputPath = path_append lib moduleCachePath
                         (ModuleName MID @ ''-'' @ ContextHash MID)
      in case MOK of
           ModuleFile \<Rightarrow>
             replace_extension lib outputPath (getExtension lib TY_ClangModuleFile)
         | DependencyFile \<Rightarrow>
             replace_extension lib outputPath (getExtension lib TY_Dependencies)
         | DependencyTargets \<Rightarrow> ModuleName MID @ ''-'' @ ContextHash MID
         | DiagnosticSerializationFile \<Rightarrow>
             replace_extension lib outputPath (getExtension lib TY_SerializedDiagnostics))"

subsection \<open>The command line of a dependency scan\<close>

text \<open>\<^verbatim>\<open>v.erase(first, last)\<close> removes the elements at the positions from \<open>first\<close> up to, not including, \<open>last\<close>.\<close>

definition erase :: "'a list \<Rightarrow> nat \<Rightarrow> nat \<Rightarrow> 'a list" where
  "erase v first_pos last_pos = take first_pos v @ drop last_pos v"

definition addSearchPathInvocationArguments :: "string list \<Rightarrow> ASTContext \<Rightarrow> string list" where
  "addSearchPathInvocationArguments invocationArgStrs ctx =
     (let args1 = fold (\<lambda>framepath acc.
                          acc @ [if IsSystem framepath then ''-iframework'' else ''-F'',
                                 Path framepath])
                       (FrameworkSearchPaths ctx) invocationArgStrs;
          args2 = fold (\<lambda>path acc. acc @ [''-I'', path]) (ImportSearchPaths ctx) args1
      in fold (\<lambda>arg acc. acc @ [''-fdepscan-prefix-map='' @ arg])
              (ScannerPrefixMapper ctx) args2)"

text \<open>
  The three assertions are checked as in a build with assertions: one that fails ends
  the function with \<open>AssertionFailed\<close>.
\<close>

definition getClangDepScanningInvocationArguments ::
    "ASTContext \<Rightarrow> string option \<Rightarrow> error + string list" where
  "getClangDepScanningInvocationArguments ctx sourceFileName =
     (let args0 = addSearchPathInvocationArguments (ClangDriverArguments ctx) ctx;
          sourceFilePos = std_find args0 ''<swift-imported-modules>''
      in if sourceFilePos = length args0 then Inl AssertionFailed
         else
           let args1 = (case sourceFileName of
                          Some name \<Rightarrow> args0[sourceFilePos := name]
                        | None \<Rightarrow> erase args0 sourceFilePos (Suc sourceFilePos));
               moduleFormatPos = std_find_if (\<lambda>arg. prefix ''-fmodule-format='' arg) args1
           in if moduleFormatPos = length args1 then Inl AssertionFailed
              else if moduleFormatPos = 0 then Inl AssertionFailed
              else
                let args2 = erase args1 (moduleFormatPos - 1) (moduleFormatPos + 1);
                    syntaxOnlyPos = std_find args2 ''-fsyntax-only''
                in if syntaxOnlyPos = length args2 then Inl AssertionFailed
                   else Inr (args2[syntaxOnlyPos := ''-c''] @ [''-gmodules'']))"

subsection \<open>The scanner's results and Clang's invocation model\<close>

text \<open>
  One module of the scanner's graph (\<^verbatim>\<open>clang::tooling::dependencies::ModuleDeps\<close>).
  \<open>FileDeps\<close> lists the keys of the string set in the order the loop visits them,
  \<open>BuildArguments\<close> is the value of \<^verbatim>\<open>getBuildArguments()\<close>, and
  \<open>CASFileSystemRootID\<close> holds the identifier as \<^verbatim>\<open>toString()\<close> prints it.
\<close>

record ModuleDeps =
  ID :: ModuleID
  ClangModuleMapFile :: string
  FileDeps :: "string list"
  ClangModuleDeps :: "ModuleID list"
  BuildArguments :: "string list"
  CASFileSystemRootID :: "string option"
  IncludeTreeID :: "string option"

text \<open>
  The result of a translation-unit scan; \<open>TU_Commands\<close> holds the \<^verbatim>\<open>Arguments\<close> of
  each command.
\<close>

record TranslationUnitDeps =
  TU_ModuleGraph :: "ModuleDeps list"
  TU_FileDeps :: "string list"
  TU_ClangModuleDeps :: "ModuleID list"
  TU_Commands :: "string list list"
  TU_IncludeTreeID :: "string option"
  TU_CASFileSystemRootID :: "string option"

datatype ActionKind = GeneratePCH | OtherAction nat

text \<open>
  \<^verbatim>\<open>clang::CompilerInvocation\<close>: the options this file reads or writes, and
  \<open>OtherOptions\<close> for all the others. Parsing and printing belong to Clang, so they are
  parameters: \<open>CreateFromArgs\<close> returns the success flag with the invocation it filled.
\<close>

record CompilerInvocation =
  ProgramAction :: ActionKind
  ModuleCacheKeys :: "(string \<times> string) list"
  PathPrefixMappings :: "(string \<times> string) list"
  OutputFile :: string
  HeaderSearch_VFSOverlayFiles :: "string list"
  OtherOptions :: "string list"

record ClangInvocationModel =
  CreateFromArgs :: "string list \<Rightarrow> bool \<times> CompilerInvocation"
  generateCC1CommandLine :: "CompilerInvocation \<Rightarrow> string list"

subsection \<open>The host's dependency records\<close>

text \<open>
  Modelled from the spec: \<^verbatim>\<open>ModuleDependencyID\<close> and \<^verbatim>\<open>ModuleDependencyInfo\<close>, declared in
  \<^verbatim>\<open>swift/AST/ModuleDependencies.h\<close>, which is not among the sources. The identifier is
  a name with one of three kinds. The record is the spec's data model: for a foreign
  module the build recipe (artifact path, module map path, context hash, bridged argument
  list, file dependencies, captured arguments, CAS root and include tree), for a host
  module the bridging-header fields, and for both the imports, the edges to direct
  dependencies and the resolved flag.
\<close>

datatype ModuleDependencyKind = SwiftInterface | SwiftSource | Clang

type_synonym ModuleDependencyID = "string \<times> ModuleDependencyKind"

record TextualModuleDetails =
  bridgingHeaderFile :: "string option"
  bridgingSourceFiles :: "string list"
  bridgingModuleDependencies :: "string list"
  bridgingHeaderIncludeTree :: "string option"
  bridgingHeaderBuildCommandLine :: "string list"

record ClangModuleDetails =
  pcmOutputPath :: string
  moduleMapFile :: string
  contextHash :: string
  buildCommandLine :: "string list"
  fileDependencies :: "string list"
  capturedPCMArgs :: "string list"
  CASFileSystemRootID_details :: string
  clangIncludeTreeRoot :: string
  moduleCacheKey :: string

datatype ModuleDetails =
    SwiftInterfaceModule TextualModuleDetails
  | SwiftSourceModule TextualModuleDetails
  | ClangModule ClangModuleDetails

record ModuleDependencyInfo =
  details :: ModuleDetails
  moduleImports :: "string list"
  resolvedModuleDependencies :: "ModuleDependencyID list"
  resolved :: bool

type_synonym ModuleDependencyVector = "(ModuleDependencyID \<times> ModuleDependencyInfo) list"

text \<open>
  Modelled from the spec: \<^verbatim>\<open>ModuleDependencyInfo::forClangModule\<close>, the record of a
  foreign module when it is first observed: its build recipe, no import, no edge, not
  resolved.
\<close>

definition forClangModule ::
    "string \<Rightarrow> string \<Rightarrow> string \<Rightarrow> string list \<Rightarrow> string list \<Rightarrow> string list \<Rightarrow>
     string \<Rightarrow> string \<Rightarrow> string \<Rightarrow> ModuleDependencyInfo" where
  "forClangModule pcmPath mapFile hash swiftArgs fileDeps pcmArgs rootID includeTree key =
     \<lparr>details = ClangModule
        \<lparr>pcmOutputPath = pcmPath, moduleMapFile = mapFile, contextHash = hash,
         buildCommandLine = swiftArgs, fileDependencies = fileDeps,
         capturedPCMArgs = pcmArgs, CASFileSystemRootID_details = rootID,
         clangIncludeTreeRoot = includeTree, moduleCacheKey = key\<rparr>,
      moduleImports = [], resolvedModuleDependencies = [], resolved = False\<rparr>"

text \<open>
  Modelled from the spec: \<^verbatim>\<open>ModuleDependencyInfo::addModuleImport\<close>, which appends the
  name to the imports unless the set of names added so far has it, and adds it to the set.
\<close>

definition addModuleImport ::
    "ModuleDependencyInfo \<Rightarrow> string \<Rightarrow> string set \<Rightarrow> ModuleDependencyInfo \<times> string set" where
  "addModuleImport info moduleName alreadyAddedModules =
     (if moduleName \<in> alreadyAddedModules then (info, alreadyAddedModules)
      else (info\<lparr>moduleImports := moduleImports info @ [moduleName]\<rparr>,
            insert moduleName alreadyAddedModules))"

text \<open>
  Modelled from the spec: \<^verbatim>\<open>ModuleDependencyInfo::addModuleDependency\<close>, which adds an
  edge to a direct dependency by its identifier.
\<close>

definition addModuleDependency ::
    "ModuleDependencyInfo \<Rightarrow> ModuleDependencyID \<Rightarrow> ModuleDependencyInfo" where
  "addModuleDependency info dependencyID =
     info\<lparr>resolvedModuleDependencies := resolvedModuleDependencies info @ [dependencyID]\<rparr>"

text \<open>
  Modelled from the spec: \<^verbatim>\<open>ModuleDependencyInfo::setIsResolved\<close>, which sets the
  resolved flag.
\<close>

definition setIsResolved :: "ModuleDependencyInfo \<Rightarrow> bool \<Rightarrow> ModuleDependencyInfo" where
  "setIsResolved info isResolved = info\<lparr>resolved := isResolved\<rparr>"

text \<open>
  Modelled from the spec: \<^verbatim>\<open>ModuleDependencyInfo::getAsSwiftInterfaceModule\<close>, the
  details of a host interface module, nothing for another kind.
\<close>

definition getAsSwiftInterfaceModule :: "ModuleDependencyInfo \<Rightarrow> TextualModuleDetails option" where
  "getAsSwiftInterfaceModule info =
     (case details info of SwiftInterfaceModule d \<Rightarrow> Some d | _ \<Rightarrow> None)"

text \<open>
  Modelled from the spec: \<^verbatim>\<open>ModuleDependencyInfo::getAsSwiftSourceModule\<close>, the details
  of a host source module, nothing for another kind.
\<close>

definition getAsSwiftSourceModule :: "ModuleDependencyInfo \<Rightarrow> TextualModuleDetails option" where
  "getAsSwiftSourceModule info =
     (case details info of SwiftSourceModule d \<Rightarrow> Some d | _ \<Rightarrow> None)"

text \<open>
  Modelled from the spec: \<^verbatim>\<open>ModuleDependencyInfo::getBridgingHeader\<close>, the declared
  bridging header path of a host module; a foreign module carries none.
\<close>

definition getBridgingHeader :: "ModuleDependencyInfo \<Rightarrow> string option" where
  "getBridgingHeader info =
     (case details info of
        SwiftInterfaceModule d \<Rightarrow> bridgingHeaderFile d
      | SwiftSourceModule d \<Rightarrow> bridgingHeaderFile d
      | ClangModule _ \<Rightarrow> None)"

text \<open>
  Modelled from the spec: the write access of the four members below to the
  bridging-header fields, which only a host module has.
\<close>

definition updateTextualDetails ::
    "(TextualModuleDetails \<Rightarrow> TextualModuleDetails) \<Rightarrow> ModuleDependencyInfo \<Rightarrow> ModuleDependencyInfo" where
  "updateTextualDetails f info =
     (case details info of
        SwiftInterfaceModule d \<Rightarrow> info\<lparr>details := SwiftInterfaceModule (f d)\<rparr>
      | SwiftSourceModule d \<Rightarrow> info\<lparr>details := SwiftSourceModule (f d)\<rparr>
      | ClangModule _ \<Rightarrow> info)"

text \<open>
  Modelled from the spec: \<^verbatim>\<open>ModuleDependencyInfo::addBridgingSourceFile\<close>, which merges a
  file into the bridging source files, after those recorded before.
\<close>

definition addBridgingSourceFile :: "ModuleDependencyInfo \<Rightarrow> string \<Rightarrow> ModuleDependencyInfo" where
  "addBridgingSourceFile info bridgingSourceFile =
     updateTextualDetails
       (\<lambda>d. d\<lparr>bridgingSourceFiles := bridgingSourceFiles d @ [bridgingSourceFile]\<rparr>) info"

text \<open>
  Modelled from the spec: \<^verbatim>\<open>ModuleDependencyInfo::addBridgingModuleDependency\<close>, which
  merges a module name into the bridging module dependencies unless the set of names
  added so far has it.
\<close>

definition addBridgingModuleDependency ::
    "ModuleDependencyInfo \<Rightarrow> string \<Rightarrow> string set \<Rightarrow> ModuleDependencyInfo \<times> string set" where
  "addBridgingModuleDependency info moduleName alreadyAddedModules =
     (if moduleName \<in> alreadyAddedModules then (info, alreadyAddedModules)
      else (updateTextualDetails
              (\<lambda>d. d\<lparr>bridgingModuleDependencies := bridgingModuleDependencies d @ [moduleName]\<rparr>)
              info,
            insert moduleName alreadyAddedModules))"

text \<open>
  Modelled from the spec: \<^verbatim>\<open>ModuleDependencyInfo::addBridgingHeaderIncludeTree\<close>, which
  records the include-tree identifier of the bridging header.
\<close>

definition addBridgingHeaderIncludeTree :: "ModuleDependencyInfo \<Rightarrow> string \<Rightarrow> ModuleDependencyInfo" where
  "addBridgingHeaderIncludeTree info treeID =
     updateTextualDetails (\<lambda>d. d\<lparr>bridgingHeaderIncludeTree := Some treeID\<rparr>) info"

text \<open>
  Modelled from the spec: \<^verbatim>\<open>ModuleDependencyInfo::updateBridgingHeaderCommandLine\<close>, which
  records the command line of the bridging header in the module's bridging-invocation
  field.
\<close>

definition updateBridgingHeaderCommandLine ::
    "ModuleDependencyInfo \<Rightarrow> string list \<Rightarrow> ModuleDependencyInfo" where
  "updateBridgingHeaderCommandLine info newCommandLine =
     updateTextualDetails (\<lambda>d. d\<lparr>bridgingHeaderBuildCommandLine := newCommandLine\<rparr>) info"

subsection \<open>Bridging the scanner's module graph\<close>

definition addClangArg :: "string list \<Rightarrow> string \<Rightarrow> string list" where
  "addClangArg swiftArgs arg = swiftArgs @ [''-Xcc'', arg]"

text \<open>
  The loop over the direct module dependencies of one module; \<open>alreadyAddedModules\<close> is
  the string set the loop passes to \<^verbatim>\<open>addModuleImport\<close>.
\<close>

fun addClangModuleDeps ::
    "ModuleID list \<Rightarrow> ModuleDependencyInfo \<Rightarrow> string set \<Rightarrow> ModuleDependencyInfo" where
  "addClangModuleDeps [] dependencies alreadyAddedModules = dependencies"
| "addClangModuleDeps (moduleName # rest) dependencies alreadyAddedModules =
     (let (dependencies1, added1) =
            addModuleImport dependencies (ModuleName moduleName) alreadyAddedModules
      in addClangModuleDeps rest
           (addModuleDependency dependencies1 (ModuleName moduleName, Clang)) added1)"

text \<open>
  The body of the loop over the scanner's modules. The assertion on the reparse is
  checked as in a build with assertions.
\<close>

definition bridgeClangModuleDep ::
    "PathLibrary \<Rightarrow> ClangInvocationModel \<Rightarrow> ASTContext \<Rightarrow> string \<Rightarrow>
     (string \<Rightarrow> string) option \<Rightarrow> ModuleDeps \<Rightarrow>
     error + (ModuleDependencyID \<times> ModuleDependencyInfo)" where
  "bridgeClangModuleDep lib clang ctx moduleOutputPath callback clangModuleDep =
     (let remapPath = (\<lambda>path. case callback of Some f \<Rightarrow> f path | None \<Rightarrow> path);
          pcmArgs = [''-Xcc'', ''-fapinotes-swift-version='' @ APINotesVersionString ctx];
          fileDeps = fold (\<lambda>fileDep acc. acc @ [fileDep]) (FileDeps clangModuleDep) [];
          swiftArgs0 = [''-frontend'', ''-emit-pcm'', ''-module-name'',
                        ModuleName (ID clangModuleDep)];
          pcmPath = moduleCacheRelativeLookupModuleOutput lib (ID clangModuleDep) ModuleFile
                      moduleOutputPath;
          swiftArgs1 = swiftArgs0 @ [''-o'', pcmPath, ''-direct-clang-cc1-module-build'',
                                     remapPath (ClangModuleMapFile clangModuleDep)];
          swiftArgs2 = (if VFSOverlayFiles ctx \<noteq> []
                        then fold (\<lambda>overlay acc. acc @ [''-vfsoverlay'', remapPath overlay])
                                  (VFSOverlayFiles ctx) swiftArgs1
                        else swiftArgs1);
          (success, depsInvocation0) = CreateFromArgs clang (BuildArguments clangModuleDep)
      in if \<not> success then Inl AssertionFailed
         else
           let depsInvocation = depsInvocation0\<lparr>ModuleCacheKeys := [], PathPrefixMappings := []\<rparr>;
               swiftArgs3 = fold (\<lambda>overlay acc.
                                    if overlay \<in> set (VFSOverlayFiles ctx) then acc
                                    else acc @ [''-vfsoverlay'', overlay])
                                 (HeaderSearch_VFSOverlayFiles depsInvocation) swiftArgs2;
               clangArgs = generateCC1CommandLine clang depsInvocation;
               swiftArgs4 = fold (\<lambda>arg acc. addClangArg acc arg) clangArgs swiftArgs3;
               RootID = (case CASFileSystemRootID clangModuleDep of
                           Some rootID \<Rightarrow> rootID | None \<Rightarrow> []);
               IncludeTree = (case IncludeTreeID clangModuleDep of
                                Some treeID \<Rightarrow> treeID | None \<Rightarrow> []);
               swiftArgs5 = fold (\<lambda>Arg acc. acc @ [Arg]) (CASConfigurationFlags ctx) swiftArgs4;
               swiftArgs6 = (if RootID \<noteq> []
                             then swiftArgs5 @ [''-no-clang-include-tree'', ''-cas-fs'', RootID]
                             else swiftArgs5);
               swiftArgs = (if IncludeTree \<noteq> []
                            then swiftArgs6 @ [''-clang-include-tree-root'', IncludeTree]
                            else swiftArgs6);
               dependencies0 = forClangModule pcmPath (ClangModuleMapFile clangModuleDep)
                                 (ContextHash (ID clangModuleDep)) swiftArgs fileDeps pcmArgs
                                 RootID IncludeTree [];
               dependencies1 = addClangModuleDeps (ClangModuleDeps clangModuleDep)
                                 dependencies0 {};
               dependencies = setIsResolved dependencies1 True
           in Inr ((ModuleName (ID clangModuleDep), Clang), dependencies))"

fun bridgeLoop ::
    "(ModuleDeps \<Rightarrow> error + (ModuleDependencyID \<times> ModuleDependencyInfo)) \<Rightarrow>
     ModuleDeps list \<Rightarrow> ModuleDependencyVector \<Rightarrow> error + ModuleDependencyVector" where
  "bridgeLoop body [] result = Inr result"
| "bridgeLoop body (clangModuleDep # rest) result =
     (case body clangModuleDep of
        Inl e \<Rightarrow> Inl e
      | Inr entry \<Rightarrow> bridgeLoop body rest (result @ [entry]))"

definition bridgeClangModuleDependencies ::
    "PathLibrary \<Rightarrow> ClangInvocationModel \<Rightarrow> ASTContext \<Rightarrow> ModuleDeps list \<Rightarrow> string \<Rightarrow>
     (string \<Rightarrow> string) option \<Rightarrow> error + ModuleDependencyVector" where
  "bridgeClangModuleDependencies lib clang ctx clangDependencies moduleOutputPath callback =
     bridgeLoop (bridgeClangModuleDep lib clang ctx moduleOutputPath callback)
                clangDependencies []"

definition recordBridgingHeaderOptions ::
    "ClangInvocationModel \<Rightarrow> ASTContext \<Rightarrow> ModuleDependencyInfo \<Rightarrow> TranslationUnitDeps \<Rightarrow>
     error + ModuleDependencyInfo" where
  "recordBridgingHeaderOptions clang ctx MDI deps =
     (let swiftArgs0 = [''-frontend'', ''-emit-pch'', ''-direct-clang-cc1-module-build'']
      in case TU_Commands deps of
           [] \<Rightarrow> Inl OutOfBoundsRead
         | arguments # _ \<Rightarrow>
             let (success, depsInvocation0) = CreateFromArgs clang arguments
             in if \<not> success then Inl AssertionFailed
                else
                  let depsInvocation = depsInvocation0
                        \<lparr>ProgramAction := GeneratePCH, ModuleCacheKeys := [],
                         PathPrefixMappings := [], OutputFile := []\<rparr>;
                      clangArgs = generateCC1CommandLine clang depsInvocation;
                      swiftArgs1 = fold (\<lambda>arg acc. addClangArg acc arg) clangArgs swiftArgs0;
                      swiftArgs2 = fold (\<lambda>Arg acc. acc @ [Arg]) (CASConfigurationFlags ctx)
                                        swiftArgs1;
                      swiftArgs3 = (case TU_IncludeTreeID deps of
                                      Some Tree \<Rightarrow> swiftArgs2 @ [''-clang-include-tree-root'', Tree]
                                    | None \<Rightarrow> swiftArgs2);
                      swiftArgs = (case TU_CASFileSystemRootID deps of
                                     Some CASFS \<Rightarrow>
                                       swiftArgs3 @ [''-no-clang-include-tree'', ''-cas-fs'', CASFS]
                                   | None \<Rightarrow> swiftArgs3)
                  in Inr (updateBridgingHeaderCommandLine MDI swiftArgs))"

subsection \<open>The external scanner and the dependencies cache\<close>

datatype ScanRequest =
    ModuleScan string "string list" string
  | TranslationUnitScan "string list" string

text \<open>
  \<^verbatim>\<open>clang::tooling::dependencies::DependencyScanningTool\<close>: its two scans are
  parameters (an error is a string on the left), and \<open>Requests\<close> records every call made
  to it, so that a function that did not scan leaves the tool as it was.
\<close>

record DependencyScanningTool =
  tool_getModuleDependencies ::
    "string \<Rightarrow> string list \<Rightarrow> string \<Rightarrow> ModuleID set \<Rightarrow>
     (ModuleID \<Rightarrow> ModuleOutputKind \<Rightarrow> string) \<Rightarrow> string + ModuleDeps list"
  tool_getTranslationUnitDependencies ::
    "string list \<Rightarrow> string \<Rightarrow> ModuleID set \<Rightarrow>
     (ModuleID \<Rightarrow> ModuleOutputKind \<Rightarrow> string) \<Rightarrow> string + TranslationUnitDeps"
  Requests :: "ScanRequest list"

text \<open>
  Modelled from the spec: \<^verbatim>\<open>ModuleDependenciesCache\<close>, declared in
  \<^verbatim>\<open>swift/AST/ModuleDependencies.h\<close>, which is not among the sources. The cache holds one
  record for each \<open>ModuleDependencyID\<close> and the last write wins; it also holds the set of
  foreign modules already seen, the module output path and the path remapping of its
  scan service.
\<close>

record ModuleDependenciesCache =
  ModuleDependenciesMap :: "ModuleDependencyID \<rightharpoonup> ModuleDependencyInfo"
  alreadySeenClangModules :: "ModuleID set"
  cacheModuleOutputPath :: string
  scanServiceRemapPath :: "string \<Rightarrow> string"

text \<open>
  Modelled from the spec: \<^verbatim>\<open>ModuleDependenciesCache::findDependency\<close>, the record stored
  for an identifier, if any.
\<close>

definition findDependency ::
    "ModuleDependenciesCache \<Rightarrow> ModuleDependencyID \<Rightarrow> ModuleDependencyInfo option" where
  "findDependency cache moduleID = ModuleDependenciesMap cache moduleID"

text \<open>
  Modelled from the spec: \<^verbatim>\<open>ModuleDependenciesCache::updateDependency\<close>, which stores the
  record for the identifier; the last write wins.
\<close>

definition updateDependency ::
    "ModuleDependenciesCache \<Rightarrow> ModuleDependencyID \<Rightarrow> ModuleDependencyInfo \<Rightarrow>
     ModuleDependenciesCache" where
  "updateDependency cache moduleID info =
     cache\<lparr>ModuleDependenciesMap := (ModuleDependenciesMap cache)(moduleID \<mapsto> info)\<rparr>"

text \<open>
  Modelled from the spec: \<^verbatim>\<open>ModuleDependenciesCache::recordDependencies\<close>, which stores
  each record of the vector, in order.
\<close>

definition recordDependencies ::
    "ModuleDependenciesCache \<Rightarrow> ModuleDependencyVector \<Rightarrow> ModuleDependenciesCache" where
  "recordDependencies cache dependencies =
     fold (\<lambda>(moduleID, info) c. updateDependency c moduleID info) dependencies cache"

subsection \<open>Dependencies of a Clang module\<close>

text \<open>
  \<^verbatim>\<open>ClangImporter::getModuleDependencies\<close>. The parameters \<^verbatim>\<open>CacheFS\<close>, \<^verbatim>\<open>delegate\<close> and
  \<^verbatim>\<open>isTestableImport\<close> are not used by the body and are left out; \<open>mapper\<close> is \<open>None\<close>
  for the null pointer. The function has no access to a dependencies cache: what it
  changes is the diagnostics of the context and the scanning tool.
\<close>

definition getModuleDependencies ::
    "PathLibrary \<Rightarrow> ClangInvocationModel \<Rightarrow> ASTContext \<Rightarrow> string \<Rightarrow> string \<Rightarrow>
     ModuleID set \<Rightarrow> DependencyScanningTool \<Rightarrow> (string \<Rightarrow> string) option \<Rightarrow>
     error + (ASTContext \<times> DependencyScanningTool \<times> ModuleDependencyVector)" where
  "getModuleDependencies lib clang ctx moduleName moduleOutputPath alreadySeen
       clangScanningTool mapper =
     (case getClangDepScanningInvocationArguments ctx None of
        Inl e \<Rightarrow> Inl e
      | Inr commandLineArgs \<Rightarrow>
     (case computeClangWorkingDirectory commandLineArgs ctx of
        Inl e \<Rightarrow> Inl e
      | Inr (ctx1, None) \<Rightarrow>
          Inr (diagnose ctx1 (clang_dependency_scan_error
                                ''Missing '-working-directory' argument''),
               clangScanningTool, [])
      | Inr (ctx1, Some workingDir) \<Rightarrow>
          let lookupModuleOutput =
                (\<lambda>MID MOK. moduleCacheRelativeLookupModuleOutput lib MID MOK moduleOutputPath);
              tool1 = clangScanningTool
                        \<lparr>Requests := Requests clangScanningTool @
                                       [ModuleScan moduleName commandLineArgs workingDir]\<rparr>
          in case tool_getModuleDependencies clangScanningTool moduleName commandLineArgs
                    workingDir alreadySeen lookupModuleOutput of
               Inl errorStr \<Rightarrow>
                 Inr (if \<not> sublist (''fatal error: module '' @ CHR 0x27 # moduleName @
                                     CHR 0x27 # '' not found'') errorStr
                      then diagnose ctx1 (clang_dependency_scan_error errorStr)
                      else ctx1,
                      tool1, [])
             | Inr clangModuleDependencies \<Rightarrow>
                 (case bridgeClangModuleDependencies lib clang ctx1 clangModuleDependencies
                         moduleOutputPath
                         (Some (\<lambda>path. case mapper of Some m \<Rightarrow> m path | None \<Rightarrow> path)) of
                    Inl e \<Rightarrow> Inl e
                  | Inr bridged \<Rightarrow> Inr (ctx1, tool1, bridged))))"

subsection \<open>Dependencies of a bridging header\<close>

text \<open>
  What \<^verbatim>\<open>ClangImporter::addBridgingHeaderDependencies\<close> can change: the diagnostics of
  the context, the scanning tool, the cache, and the text written to \<^verbatim>\<open>llvm::errs()\<close>.
\<close>

record ScanState =
  SwiftContext :: ASTContext
  ScanningTool :: DependencyScanningTool
  DependenciesCache :: ModuleDependenciesCache
  errs :: "string list"

fun addBridgingModuleDependencies ::
    "ModuleID list \<Rightarrow> ModuleDependencyInfo \<Rightarrow> string set \<Rightarrow> ModuleDependencyInfo" where
  "addBridgingModuleDependencies [] targetModule alreadyAddedModules = targetModule"
| "addBridgingModuleDependencies (moduleDep # rest) targetModule alreadyAddedModules =
     (let (target1, added1) =
            addBridgingModuleDependency targetModule (ModuleName moduleDep) alreadyAddedModules
      in addBridgingModuleDependencies rest target1 added1)"

text \<open>
  The function after the test for bridging dependencies recorded earlier.
  \<open>moduleCachePath\<close> is the value of \<^verbatim>\<open>getModuleCachePathFromClang(getClangInstance())\<close>.
  Reading the bridging header of a module that has none dereferences an empty optional,
  the error \<open>OutOfBoundsRead\<close>.
\<close>

definition scanBridgingHeader ::
    "PathLibrary \<Rightarrow> ClangInvocationModel \<Rightarrow> string \<Rightarrow> ModuleDependencyID \<Rightarrow>
     ModuleDependencyInfo \<Rightarrow> ScanState \<Rightarrow> error + (bool \<times> ScanState)" where
  "scanBridgingHeader lib clang moduleCachePath moduleID targetModule st =
     (let ctx = SwiftContext st; cache = DependenciesCache st; tool = ScanningTool st
      in case getBridgingHeader targetModule of
        None \<Rightarrow> Inl OutOfBoundsRead
      | Some bridgingHeader \<Rightarrow>
     (case getClangDepScanningInvocationArguments ctx (Some bridgingHeader) of
        Inl e \<Rightarrow> Inl e
      | Inr commandLineArgs \<Rightarrow>
     (case computeClangWorkingDirectory commandLineArgs ctx of
        Inl e \<Rightarrow> Inl e
      | Inr (ctx1, None) \<Rightarrow>
          Inr (True, st\<lparr>SwiftContext :=
                          diagnose ctx1 (clang_dependency_scan_error
                                           ''Missing '-working-directory' argument'')\<rparr>)
      | Inr (ctx1, Some workingDir) \<Rightarrow>
          let lookupModuleOutput =
                (\<lambda>MID MOK. moduleCacheRelativeLookupModuleOutput lib MID MOK moduleCachePath);
              tool1 = tool\<lparr>Requests := Requests tool @
                                          [TranslationUnitScan commandLineArgs workingDir]\<rparr>;
              st1 = st\<lparr>SwiftContext := ctx1, ScanningTool := tool1\<rparr>
          in case tool_getTranslationUnitDependencies tool commandLineArgs workingDir
                    (alreadySeenClangModules cache) lookupModuleOutput of
               Inl err \<Rightarrow> Inr (True, st1\<lparr>errs := errs st1 @ [err]\<rparr>)
             | Inr clangModuleDependencies \<Rightarrow>
                 (case bridgeClangModuleDependencies lib clang ctx1
                         (TU_ModuleGraph clangModuleDependencies) (cacheModuleOutputPath cache)
                         (Some (scanServiceRemapPath cache)) of
                    Inl e \<Rightarrow> Inl e
                  | Inr bridgedDeps \<Rightarrow>
                      let cache1 = recordDependencies cache bridgedDeps;
                          target1 = fold (\<lambda>fileDep t. addBridgingSourceFile t fileDep)
                                         (TU_FileDeps clangModuleDependencies) targetModule;
                          target2 = addBridgingModuleDependencies
                                      (TU_ClangModuleDeps clangModuleDependencies) target1 {};
                          target3 = (case TU_IncludeTreeID clangModuleDependencies of
                                       Some TreeID \<Rightarrow> addBridgingHeaderIncludeTree target2 TreeID
                                     | None \<Rightarrow> target2)
                      in case recordBridgingHeaderOptions clang ctx1 target3
                                clangModuleDependencies of
                           Inl e \<Rightarrow> Inl e
                         | Inr target4 \<Rightarrow>
                             Inr (False,
                                  st1\<lparr>DependenciesCache :=
                                         updateDependency cache1 moduleID target4\<rparr>)))))"

definition addBridgingHeaderDependencies ::
    "PathLibrary \<Rightarrow> ClangInvocationModel \<Rightarrow> string \<Rightarrow> ModuleDependencyID \<Rightarrow> ScanState \<Rightarrow>
     error + (bool \<times> ScanState)" where
  "addBridgingHeaderDependencies lib clang moduleCachePath moduleID st =
     (case findDependency (DependenciesCache st) moduleID of
        None \<Rightarrow> Inl AssertionFailed
      | Some targetModule \<Rightarrow>
          (case getAsSwiftInterfaceModule targetModule of
             Some swiftInterfaceDeps \<Rightarrow>
               if bridgingSourceFiles swiftInterfaceDeps \<noteq> [] \<or>
                  bridgingModuleDependencies swiftInterfaceDeps \<noteq> []
               then Inr (False, st)
               else scanBridgingHeader lib clang moduleCachePath moduleID targetModule st
           | None \<Rightarrow>
               (case getAsSwiftSourceModule targetModule of
                  Some swiftSourceDeps \<Rightarrow>
                    if bridgingSourceFiles swiftSourceDeps \<noteq> [] \<or>
                       bridgingModuleDependencies swiftSourceDeps \<noteq> []
                    then Inr (False, st)
                    else scanBridgingHeader lib clang moduleCachePath moduleID targetModule st
                | None \<Rightarrow> Inl Unreachable)))"

subsection \<open>Concrete inputs\<close>

text \<open>
  Values on which the functions are evaluated: a path library that joins with a slash
  and appends the extension after a dot, an invocation model whose parser keeps the
  arguments and whose printer prints them followed by the cache keys, and the context
  of the scenario with one system framework path and one import path.
\<close>

definition exampleLibrary :: PathLibrary where
  "exampleLibrary =
     \<lparr>path_append = (\<lambda>path component. path @ ''/'' @ component),
      replace_extension = (\<lambda>path extension. path @ ''.'' @ extension),
      getExtension = (\<lambda>ty. case ty of TY_ClangModuleFile \<Rightarrow> ''pcm''
                                | TY_Dependencies \<Rightarrow> ''d''
                                | TY_SerializedDiagnostics \<Rightarrow> ''dia'')\<rparr>"

definition exampleClang :: ClangInvocationModel where
  "exampleClang =
     \<lparr>CreateFromArgs = (\<lambda>args.
        (True, \<lparr>ProgramAction = OtherAction 0, ModuleCacheKeys = [(''key'', ''path'')],
                PathPrefixMappings = [], OutputFile = ''out.pcm'',
                HeaderSearch_VFSOverlayFiles = [''/host.yaml'', ''/scanner.yaml''],
                OtherOptions = args\<rparr>)),
      generateCC1CommandLine = (\<lambda>invocation.
        OtherOptions invocation @
        concat (map (\<lambda>(key, path). [''-fmodule-file-cache-key'', key, path])
                    (ModuleCacheKeys invocation)))\<rparr>"

definition exampleContext :: ASTContext where
  "exampleContext =
     \<lparr>FrameworkSearchPaths = [\<lparr>Path = ''/Frameworks'', IsSystem = True\<rparr>],
      ImportSearchPaths = [''/usr/include/foo''],
      ScannerPrefixMapper = [],
      VFSOverlayFiles = [''/host.yaml''],
      ClangDriverArguments = [''clang'', ''-fsyntax-only'', ''-Xclang'', ''-fmodule-format=obj'',
                              ''<swift-imported-modules>''],
      CurrentWorkingDirectory = ''/cwd'',
      CASConfigurationFlags = [''-cache-compile-job''],
      APINotesVersionString = ''5'',
      Diags = []\<rparr>"

definition exampleModule :: ModuleDeps where
  "exampleModule =
     \<lparr>ID = \<lparr>ModuleName = ''Foo'', ContextHash = ''abc123''\<rparr>,
      ClangModuleMapFile = ''/sdk/module.modulemap'',
      FileDeps = [''/sdk/Foo.h''],
      ClangModuleDeps = [\<lparr>ModuleName = ''Bar'', ContextHash = ''def456''\<rparr>],
      BuildArguments = [''-cc1''],
      CASFileSystemRootID = None,
      IncludeTreeID = Some ''llvmcas://tree''\<rparr>"

definition exampleCache :: "ModuleDependencyInfo \<Rightarrow> ModuleDependenciesCache" where
  "exampleCache info =
     \<lparr>ModuleDependenciesMap = [(''Main'', SwiftSource) \<mapsto> info],
      alreadySeenClangModules = {},
      cacheModuleOutputPath = ''/cache'',
      scanServiceRemapPath = (\<lambda>path. path)\<rparr>"

definition exampleSourceModule :: "string list \<Rightarrow> string list \<Rightarrow> ModuleDependencyInfo" where
  "exampleSourceModule sourceFiles commandLine =
     \<lparr>details = SwiftSourceModule
        \<lparr>bridgingHeaderFile = Some ''Input.h'', bridgingSourceFiles = sourceFiles,
         bridgingModuleDependencies = [], bridgingHeaderIncludeTree = None,
         bridgingHeaderBuildCommandLine = commandLine\<rparr>,
      moduleImports = [], resolvedModuleDependencies = [], resolved = False\<rparr>"

definition exampleTool ::
    "string + ModuleDeps list \<Rightarrow> string + TranslationUnitDeps \<Rightarrow> DependencyScanningTool" where
  "exampleTool moduleResult unitResult =
     \<lparr>tool_getModuleDependencies = (\<lambda>name args dir seen lookup. moduleResult),
      tool_getTranslationUnitDependencies = (\<lambda>args dir seen lookup. unitResult),
      Requests = []\<rparr>"

definition exampleUnit :: "string list \<Rightarrow> TranslationUnitDeps" where
  "exampleUnit files =
     \<lparr>TU_ModuleGraph = [], TU_FileDeps = files, TU_ClangModuleDeps = [],
      TU_Commands = [[''-cc1'']], TU_IncludeTreeID = None, TU_CASFileSystemRootID = None\<rparr>"

definition exampleState :: "ModuleDependencyInfo \<Rightarrow> DependencyScanningTool \<Rightarrow> ScanState" where
  "exampleState info tool =
     \<lparr>SwiftContext = exampleContext, ScanningTool = tool,
      DependenciesCache = exampleCache info, errs = []\<rparr>"

section \<open>Properties\<close>

subsection \<open>Iterators\<close>

lemma std_find_if_le: "std_find_if p xs \<le> length xs"
  by (induction xs) auto


lemma std_find_if_append_hit:
  "\<forall>x \<in> set xs. \<not> p x \<Longrightarrow> p y \<Longrightarrow> std_find_if p (xs @ y # ys) = length xs"
  by (induction xs) auto

lemma std_find_if_hit: "std_find_if p xs < length xs \<Longrightarrow> p (xs ! std_find_if p xs)"
  by (induction xs) (auto split: if_splits)

lemma std_find_if_first: "i < std_find_if p xs \<Longrightarrow> \<not> p (xs ! i)"
proof (induction xs arbitrary: i)
  case Nil
  then show ?case by simp
next
  case (Cons x xs)
  then show ?case by (cases i) (auto split: if_splits)
qed

subsection \<open>Output paths\<close>

text \<open>
  C5. The output path of a module: for a module file, a dependency file and a
  serialized-diagnostics file, the cache root extended by \<open>name-contextHash\<close> with its
  extension replaced by the extension of the artifact's file type; for the dependency
  targets, the bare string \<open>name-contextHash\<close>, whatever the cache root. The identity
  \<open>Foo\<close>, \<open>abc123\<close> gives \<open>Foo-abc123\<close>.
\<close>

theorem moduleCacheRelativeLookupModuleOutput_postcondition:
  "moduleCacheRelativeLookupModuleOutput lib MID ModuleFile root =
     replace_extension lib (path_append lib root (ModuleName MID @ ''-'' @ ContextHash MID))
                       (getExtension lib TY_ClangModuleFile)
   \<and> moduleCacheRelativeLookupModuleOutput lib MID DependencyFile root =
     replace_extension lib (path_append lib root (ModuleName MID @ ''-'' @ ContextHash MID))
                       (getExtension lib TY_Dependencies)
   \<and> moduleCacheRelativeLookupModuleOutput lib MID DiagnosticSerializationFile root =
     replace_extension lib (path_append lib root (ModuleName MID @ ''-'' @ ContextHash MID))
                       (getExtension lib TY_SerializedDiagnostics)
   \<and> moduleCacheRelativeLookupModuleOutput lib MID DependencyTargets root =
     ModuleName MID @ ''-'' @ ContextHash MID
   \<and> moduleCacheRelativeLookupModuleOutput lib
        \<lparr>ModuleName = ''Foo'', ContextHash = ''abc123''\<rparr> DependencyTargets root =
     ''Foo-abc123''"
  by (simp add: moduleCacheRelativeLookupModuleOutput_def)

subsection \<open>Bridging the scanner's module graph\<close>

lemma fold_push_back: "fold (\<lambda>x acc. acc @ f x) xs a = a @ concat (map f xs)"
  by (induction xs arbitrary: a) auto

lemma fold_push_back_unless:
  "fold (\<lambda>x acc. if P x then acc else acc @ f x) xs a = a @ concat (map f (filter (\<lambda>x. \<not> P x) xs))"
  by (induction xs arbitrary: a) auto

lemma fold_push_back_single: "fold (\<lambda>x acc. acc @ [x]) xs a = a @ xs"
  by (induction xs arbitrary: a) auto

lemma fold_addClangArg:
  "fold (\<lambda>arg acc. addClangArg acc arg) clangArgs a = a @ concat (map (\<lambda>arg. [''-Xcc'', arg]) clangArgs)"
  by (induction clangArgs arbitrary: a) (auto simp: addClangArg_def)

lemma if_nonempty_fold:
  "(if xs \<noteq> [] then a @ concat (map f xs) else a) = a @ concat (map f xs)"
  by simp

lemma addClangModuleDeps_fields:
  "resolvedModuleDependencies (addClangModuleDeps ds info added)
     = resolvedModuleDependencies info @ map (\<lambda>d. (ModuleName d, Clang)) ds
   \<and> resolved (addClangModuleDeps ds info added) = resolved info
   \<and> details (addClangModuleDeps ds info added) = details info"
  by (induction ds info added rule: addClangModuleDeps.induct)
     (auto simp: addModuleImport_def addModuleDependency_def)

lemma bridgeClangModuleDep_success:
  assumes "CreateFromArgs clang (BuildArguments m) = (True, invocation)"
  shows "\<exists>pre. bridgeClangModuleDep lib clang ctx out cb m
                  = Inr ((ModuleName (ID m), Clang), setIsResolved pre True)
           \<and> \<not> resolved pre
           \<and> resolvedModuleDependencies pre = map (\<lambda>d. (ModuleName d, Clang)) (ClangModuleDeps m)
           \<and> details pre = ClangModule
               \<lparr>pcmOutputPath = moduleCacheRelativeLookupModuleOutput lib (ID m) ModuleFile out,
                moduleMapFile = ClangModuleMapFile m,
                contextHash = ContextHash (ID m),
                buildCommandLine =
                  [''-frontend'', ''-emit-pcm'', ''-module-name'', ModuleName (ID m),
                   ''-o'', moduleCacheRelativeLookupModuleOutput lib (ID m) ModuleFile out,
                   ''-direct-clang-cc1-module-build'',
                   (case cb of Some f \<Rightarrow> f (ClangModuleMapFile m) | None \<Rightarrow> ClangModuleMapFile m)]
                  @ concat (map (\<lambda>overlay. [''-vfsoverlay'',
                                  case cb of Some f \<Rightarrow> f overlay | None \<Rightarrow> overlay])
                                (VFSOverlayFiles ctx))
                  @ concat (map (\<lambda>overlay. [''-vfsoverlay'', overlay])
                                (filter (\<lambda>overlay. overlay \<notin> set (VFSOverlayFiles ctx))
                                        (HeaderSearch_VFSOverlayFiles invocation)))
                  @ concat (map (\<lambda>arg. [''-Xcc'', arg])
                                (generateCC1CommandLine clang
                                   (invocation\<lparr>ModuleCacheKeys := [], PathPrefixMappings := []\<rparr>)))
                  @ CASConfigurationFlags ctx
                  @ (case CASFileSystemRootID m of
                       None \<Rightarrow> []
                     | Some rootID \<Rightarrow> if rootID = [] then []
                                      else [''-no-clang-include-tree'', ''-cas-fs'', rootID])
                  @ (case IncludeTreeID m of
                       None \<Rightarrow> []
                     | Some treeID \<Rightarrow> if treeID = [] then []
                                      else [''-clang-include-tree-root'', treeID]),
                fileDependencies = FileDeps m,
                capturedPCMArgs = [''-Xcc'', ''-fapinotes-swift-version='' @ APINotesVersionString ctx],
                CASFileSystemRootID_details = (case CASFileSystemRootID m of Some r \<Rightarrow> r | None \<Rightarrow> []),
                clangIncludeTreeRoot = (case IncludeTreeID m of Some t \<Rightarrow> t | None \<Rightarrow> []),
                moduleCacheKey = []\<rparr>"
  using assms
  apply (simp add: bridgeClangModuleDep_def Let_def fold_push_back fold_push_back_unless
      fold_push_back_single fold_addClangArg if_nonempty_fold split del: if_split)
  apply (rule exI, rule conjI, rule refl)
  apply (simp add: addClangModuleDeps_fields forClangModule_def fold_push_back split: option.splits)
  done



lemma bridgeLoop_Inr:
  "bridgeLoop body graph acc = Inr result \<Longrightarrow>
   \<exists>rs. result = acc @ rs \<and> length rs = length graph \<and>
        (\<forall>i < length graph. body (graph ! i) = Inr (rs ! i))"
proof (induction graph arbitrary: acc)
  case Nil
  then show ?case by simp
next
  case (Cons m graph)
  from Cons.prems obtain entry where e: "body m = Inr entry"
    and rest: "bridgeLoop body graph (acc @ [entry]) = Inr result"
    by (auto split: sum.splits)
  from Cons.IH [OF rest] obtain rs where rs: "result = (acc @ [entry]) @ rs"
    "length rs = length graph" "\<forall>i < length graph. body (graph ! i) = Inr (rs ! i)"
    by blast
  have "\<forall>i < length (m # graph). body ((m # graph) ! i) = Inr ((entry # rs) ! i)"
    using e rs(3) by (auto simp: nth_Cons split: nat.splits)
  with rs(1,2) show ?case
    by (intro exI [of _ "entry # rs"]) simp
qed

lemma bridgeLoop_total:
  "\<forall>m \<in> set graph. \<exists>r. body m = Inr r \<Longrightarrow> \<exists>result. bridgeLoop body graph acc = Inr result"
proof (induction graph arbitrary: acc)
  case Nil
  show ?case by simp
next
  case (Cons m graph)
  then obtain entry where "body m = Inr entry" by auto
  with Cons show ?case by simp
qed

lemma bridgeClangModuleDep_Inr_reparsed:
  "bridgeClangModuleDep lib clang ctx out cb m = Inr r \<Longrightarrow>
   CreateFromArgs clang (BuildArguments m) = (True, snd (CreateFromArgs clang (BuildArguments m)))"
  by (cases "CreateFromArgs clang (BuildArguments m)")
     (auto simp: bridgeClangModuleDep_def Let_def split: if_splits)

text \<open>
  C7. Every record that the bridge produces is marked resolved, and the flag is set on a
  record that already holds an edge to each direct module dependency of its entry, in
  order, each tagged as a Clang module: the bridged record is \<open>setIsResolved pre True\<close>
  for an unresolved record \<open>pre\<close> with all the edges. The bridge returns a record for
  every entry whenever each entry's arguments reparse; a graph without edges is the case
  of empty dependency lists.
\<close>

theorem bridged_records_are_resolved:
  assumes "\<forall>m \<in> set clangDependencies. fst (CreateFromArgs clang (BuildArguments m))"
  shows "\<exists>result.
           bridgeClangModuleDependencies lib clang ctx clangDependencies out cb = Inr result
           \<and> length result = length clangDependencies
           \<and> (\<forall>i < length clangDependencies. \<exists>pre.
                 result ! i = ((ModuleName (ID (clangDependencies ! i)), Clang),
                               setIsResolved pre True)
                 \<and> resolved (snd (result ! i))
                 \<and> \<not> resolved pre
                 \<and> resolvedModuleDependencies pre =
                     map (\<lambda>d. (ModuleName d, Clang)) (ClangModuleDeps (clangDependencies ! i))
                 \<and> resolvedModuleDependencies (snd (result ! i)) =
                     resolvedModuleDependencies pre)"
proof -
  let ?body = "bridgeClangModuleDep lib clang ctx out cb"
  have ok: "\<exists>pre. ?body m = Inr ((ModuleName (ID m), Clang), setIsResolved pre True)
              \<and> \<not> resolved pre
              \<and> resolvedModuleDependencies pre = map (\<lambda>d. (ModuleName d, Clang)) (ClangModuleDeps m)"
    if "m \<in> set clangDependencies" for m
  proof -
    from that assms have "fst (CreateFromArgs clang (BuildArguments m))" by blast
    then have "CreateFromArgs clang (BuildArguments m)
                 = (True, snd (CreateFromArgs clang (BuildArguments m)))"
      by (cases "CreateFromArgs clang (BuildArguments m)") simp
    from bridgeClangModuleDep_success [OF this, of lib ctx out cb]
    show ?thesis by blast
  qed
  then have "\<forall>m \<in> set clangDependencies. \<exists>r. ?body m = Inr r" by blast
  from bridgeLoop_total [OF this, of "[]"]
  obtain result where res: "bridgeLoop ?body clangDependencies [] = Inr result" by blast
  from bridgeLoop_Inr [OF res]
  have len: "length result = length clangDependencies"
    and each: "\<forall>i < length clangDependencies. ?body (clangDependencies ! i) = Inr (result ! i)"
    by auto
  have "\<exists>pre. result ! i = ((ModuleName (ID (clangDependencies ! i)), Clang),
                               setIsResolved pre True)
                 \<and> resolved (snd (result ! i))
                 \<and> \<not> resolved pre
                 \<and> resolvedModuleDependencies pre =
                     map (\<lambda>d. (ModuleName d, Clang)) (ClangModuleDeps (clangDependencies ! i))
                 \<and> resolvedModuleDependencies (snd (result ! i)) =
                     resolvedModuleDependencies pre"
    if "i < length clangDependencies" for i
  proof -
    from that have "clangDependencies ! i \<in> set clangDependencies" by simp
    from ok [OF this] obtain pre where
      p: "?body (clangDependencies ! i)
            = Inr ((ModuleName (ID (clangDependencies ! i)), Clang), setIsResolved pre True)"
         "\<not> resolved pre"
         "resolvedModuleDependencies pre =
            map (\<lambda>d. (ModuleName d, Clang)) (ClangModuleDeps (clangDependencies ! i))"
      by blast
    from each that p(1) have "result ! i
       = ((ModuleName (ID (clangDependencies ! i)), Clang), setIsResolved pre True)"
      by simp
    with p(2,3) show ?thesis
      by (intro exI [of _ pre]) (simp add: setIsResolved_def)
  qed
  with res len show ?thesis
    by (simp add: bridgeClangModuleDependencies_def)
qed

theorem bridged_records_are_resolved_witness:
  "fst (CreateFromArgs exampleClang (BuildArguments exampleModule))
   \<and> (\<exists>result.
           bridgeClangModuleDependencies exampleLibrary exampleClang exampleContext
             [exampleModule] ''/cache'' None = Inr result
           \<and> length result = length [exampleModule]
           \<and> (\<forall>i < length [exampleModule]. \<exists>pre.
                 result ! i = ((ModuleName (ID ([exampleModule] ! i)), Clang),
                               setIsResolved pre True)
                 \<and> resolved (snd (result ! i))
                 \<and> \<not> resolved pre
                 \<and> resolvedModuleDependencies pre =
                     map (\<lambda>d. (ModuleName d, Clang)) (ClangModuleDeps ([exampleModule] ! i))
                 \<and> resolvedModuleDependencies (snd (result ! i)) =
                     resolvedModuleDependencies pre))"
proof -
  have h: "\<forall>m \<in> set [exampleModule]. fst (CreateFromArgs exampleClang (BuildArguments m))"
    by (simp add: exampleClang_def)
  from bridged_records_are_resolved [OF h, of exampleLibrary exampleContext "''/cache''" None] h
  show ?thesis by simp
qed

lemma bridgeClangModuleDependencies_entries:
  assumes "\<forall>m \<in> set graph. fst (CreateFromArgs clang (BuildArguments m))"
  shows "\<exists>result. bridgeClangModuleDependencies lib clang ctx graph out cb = Inr result
           \<and> length result = length graph
           \<and> (\<forall>i < length graph.
                 bridgeClangModuleDep lib clang ctx out cb (graph ! i) = Inr (result ! i))"
proof -
  let ?body = "bridgeClangModuleDep lib clang ctx out cb"
  have "\<exists>r. ?body m = Inr r" if "m \<in> set graph" for m
  proof -
    from that assms have "fst (CreateFromArgs clang (BuildArguments m))" by blast
    then have "CreateFromArgs clang (BuildArguments m)
                 = (True, snd (CreateFromArgs clang (BuildArguments m)))"
      by (cases "CreateFromArgs clang (BuildArguments m)") simp
    from bridgeClangModuleDep_success [OF this, of lib ctx out cb]
    show ?thesis by blast
  qed
  then have "\<forall>m \<in> set graph. \<exists>r. ?body m = Inr r" by blast
  from bridgeLoop_total [OF this, of "[]"]
  obtain result where res: "bridgeLoop ?body graph [] = Inr result" by blast
  from bridgeLoop_Inr [OF res] res show ?thesis
    by (auto simp: bridgeClangModuleDependencies_def)
qed

text \<open>
  C2, as amended. The command line of a bridged module, in order: \<open>-frontend\<close>,
  \<open>-emit-pcm\<close>, \<open>-module-name\<close> and the name, \<open>-o\<close> and the output path,
  \<open>-direct-clang-cc1-module-build\<close>, the remapped module map path, the host's overlay
  files (remapped), then the overlay files of the reparsed invocation that are not among
  the host's, then the regenerated arguments each after \<open>-Xcc\<close>, then the CAS
  configuration flags, then the CAS root and the include tree when they are not empty.
\<close>

theorem bridged_argument_order:
  assumes "\<forall>m \<in> set graph. fst (CreateFromArgs clang (BuildArguments m))"
  shows "\<exists>result. bridgeClangModuleDependencies lib clang ctx graph out cb = Inr result
           \<and> length result = length graph
           \<and> (\<forall>i < length graph. \<exists>d.
                 details (snd (result ! i)) = ClangModule d
                 \<and> buildCommandLine d =
                    (let m = graph ! i;
                         invocation = snd (CreateFromArgs clang (BuildArguments m));
                         remapPath = (\<lambda>path. case cb of Some f \<Rightarrow> f path | None \<Rightarrow> path)
                     in [''-frontend'', ''-emit-pcm'', ''-module-name'', ModuleName (ID m),
                         ''-o'', moduleCacheRelativeLookupModuleOutput lib (ID m) ModuleFile out,
                         ''-direct-clang-cc1-module-build'', remapPath (ClangModuleMapFile m)]
                        @ concat (map (\<lambda>overlay. [''-vfsoverlay'', remapPath overlay])
                                      (VFSOverlayFiles ctx))
                        @ concat (map (\<lambda>overlay. [''-vfsoverlay'', overlay])
                                      (filter (\<lambda>overlay. overlay \<notin> set (VFSOverlayFiles ctx))
                                              (HeaderSearch_VFSOverlayFiles invocation)))
                        @ concat (map (\<lambda>arg. [''-Xcc'', arg])
                                      (generateCC1CommandLine clang
                                         (invocation\<lparr>ModuleCacheKeys := [],
                                                      PathPrefixMappings := []\<rparr>)))
                        @ CASConfigurationFlags ctx
                        @ (case CASFileSystemRootID m of
                             None \<Rightarrow> []
                           | Some rootID \<Rightarrow>
                               if rootID = [] then []
                               else [''-no-clang-include-tree'', ''-cas-fs'', rootID])
                        @ (case IncludeTreeID m of
                             None \<Rightarrow> []
                           | Some treeID \<Rightarrow>
                               if treeID = [] then []
                               else [''-clang-include-tree-root'', treeID])))"
proof -
  from bridgeClangModuleDependencies_entries [OF assms, of lib ctx out cb]
  obtain result where res: "bridgeClangModuleDependencies lib clang ctx graph out cb = Inr result"
    and len: "length result = length graph"
    and each: "\<forall>i < length graph.
                 bridgeClangModuleDep lib clang ctx out cb (graph ! i) = Inr (result ! i)"
    by blast
  have "\<exists>d. details (snd (result ! i)) = ClangModule d
                 \<and> buildCommandLine d =
                    (let m = graph ! i;
                         invocation = snd (CreateFromArgs clang (BuildArguments m));
                         remapPath = (\<lambda>path. case cb of Some f \<Rightarrow> f path | None \<Rightarrow> path)
                     in [''-frontend'', ''-emit-pcm'', ''-module-name'', ModuleName (ID m),
                         ''-o'', moduleCacheRelativeLookupModuleOutput lib (ID m) ModuleFile out,
                         ''-direct-clang-cc1-module-build'', remapPath (ClangModuleMapFile m)]
                        @ concat (map (\<lambda>overlay. [''-vfsoverlay'', remapPath overlay])
                                      (VFSOverlayFiles ctx))
                        @ concat (map (\<lambda>overlay. [''-vfsoverlay'', overlay])
                                      (filter (\<lambda>overlay. overlay \<notin> set (VFSOverlayFiles ctx))
                                              (HeaderSearch_VFSOverlayFiles invocation)))
                        @ concat (map (\<lambda>arg. [''-Xcc'', arg])
                                      (generateCC1CommandLine clang
                                         (invocation\<lparr>ModuleCacheKeys := [],
                                                      PathPrefixMappings := []\<rparr>)))
                        @ CASConfigurationFlags ctx
                        @ (case CASFileSystemRootID m of
                             None \<Rightarrow> []
                           | Some rootID \<Rightarrow>
                               if rootID = [] then []
                               else [''-no-clang-include-tree'', ''-cas-fs'', rootID])
                        @ (case IncludeTreeID m of
                             None \<Rightarrow> []
                           | Some treeID \<Rightarrow>
                               if treeID = [] then []
                               else [''-clang-include-tree-root'', treeID]))"
    if i: "i < length graph" for i
  proof -
    let ?m = "graph ! i"
    from i assms have "fst (CreateFromArgs clang (BuildArguments ?m))" by simp
    then have "CreateFromArgs clang (BuildArguments ?m)
                 = (True, snd (CreateFromArgs clang (BuildArguments ?m)))"
      by (cases "CreateFromArgs clang (BuildArguments ?m)") simp
    from bridgeClangModuleDep_success [OF this, of lib ctx out cb] each i
    show ?thesis
      by (auto simp: setIsResolved_def Let_def)
  qed
  with res len show ?thesis by blast
qed

theorem bridged_argument_order_witness:
  "fst (CreateFromArgs exampleClang (BuildArguments exampleModule))
   \<and> (\<exists>result. bridgeClangModuleDependencies exampleLibrary exampleClang exampleContext
                   [exampleModule] ''/cache'' None = Inr result
        \<and> length result = 1
        \<and> (\<exists>d. details (snd (result ! 0)) = ClangModule d
              \<and> buildCommandLine d =
                  [''-frontend'', ''-emit-pcm'', ''-module-name'', ''Foo'',
                   ''-o'', ''/cache/Foo-abc123.pcm'', ''-direct-clang-cc1-module-build'',
                   ''/sdk/module.modulemap'', ''-vfsoverlay'', ''/host.yaml'',
                   ''-vfsoverlay'', ''/scanner.yaml'', ''-Xcc'', ''-cc1'',
                   ''-cache-compile-job'', ''-clang-include-tree-root'', ''llvmcas://tree'']))"
proof -
  have h: "\<forall>m \<in> set [exampleModule]. fst (CreateFromArgs exampleClang (BuildArguments m))"
    by (simp add: exampleClang_def)
  from bridged_argument_order [OF h, of exampleLibrary exampleContext "''/cache''" None]
  show ?thesis
    by (simp add: exampleLibrary_def exampleClang_def exampleContext_def
      exampleModule_def moduleCacheRelativeLookupModuleOutput_def)
qed

text \<open>
  The order of the claim, with the regenerated arguments before the scanner's overlay
  files, is not the order of the code: on the example module the overlay
  \<open>/scanner.yaml\<close> comes before \<open>-Xcc -cc1\<close>.
\<close>

theorem bridged_argument_order_counterexample:
  "bridgeClangModuleDependencies exampleLibrary exampleClang exampleContext
     [exampleModule] ''/cache'' None
   = Inr [((''Foo'', Clang),
           \<lparr>details = ClangModule
              \<lparr>pcmOutputPath = ''/cache/Foo-abc123.pcm'',
               moduleMapFile = ''/sdk/module.modulemap'',
               contextHash = ''abc123'',
               buildCommandLine =
                 [''-frontend'', ''-emit-pcm'', ''-module-name'', ''Foo'',
                  ''-o'', ''/cache/Foo-abc123.pcm'', ''-direct-clang-cc1-module-build'',
                  ''/sdk/module.modulemap'', ''-vfsoverlay'', ''/host.yaml'',
                  ''-vfsoverlay'', ''/scanner.yaml'', ''-Xcc'', ''-cc1'',
                  ''-cache-compile-job'', ''-clang-include-tree-root'', ''llvmcas://tree''],
               fileDependencies = [''/sdk/Foo.h''],
               capturedPCMArgs = [''-Xcc'', ''-fapinotes-swift-version=5''],
               CASFileSystemRootID_details = [],
               clangIncludeTreeRoot = ''llvmcas://tree'',
               moduleCacheKey = []\<rparr>,
            moduleImports = [''Bar''],
            resolvedModuleDependencies = [(''Bar'', Clang)],
            resolved = True\<rparr>)]
   \<and> [''-frontend'', ''-emit-pcm'', ''-module-name'', ''Foo'',
       ''-o'', ''/cache/Foo-abc123.pcm'', ''-direct-clang-cc1-module-build'',
       ''/sdk/module.modulemap'', ''-vfsoverlay'', ''/host.yaml'',
       ''-vfsoverlay'', ''/scanner.yaml'', ''-Xcc'', ''-cc1'',
       ''-cache-compile-job'', ''-clang-include-tree-root'', ''llvmcas://tree'']
     \<noteq> [''-frontend'', ''-emit-pcm'', ''-module-name'', ''Foo'',
        ''-o'', ''/cache/Foo-abc123.pcm'', ''-direct-clang-cc1-module-build'',
        ''/sdk/module.modulemap'', ''-vfsoverlay'', ''/host.yaml'',
        ''-Xcc'', ''-cc1'', ''-vfsoverlay'', ''/scanner.yaml'',
        ''-cache-compile-job'', ''-clang-include-tree-root'', ''llvmcas://tree'']"
  by (simp add: bridgeClangModuleDependencies_def bridgeClangModuleDep_def exampleLibrary_def exampleClang_def exampleContext_def
      exampleModule_def
      moduleCacheRelativeLookupModuleOutput_def addClangArg_def forClangModule_def
      addModuleImport_def addModuleDependency_def setIsResolved_def Let_def)

lemma recordBridgingHeaderOptions_success:
  assumes "TU_Commands deps = arguments # rest"
      and "CreateFromArgs clang arguments = (True, invocation)"
  shows "recordBridgingHeaderOptions clang ctx MDI deps =
           Inr (updateBridgingHeaderCommandLine MDI
                  ([''-frontend'', ''-emit-pch'', ''-direct-clang-cc1-module-build'']
                   @ concat (map (\<lambda>arg. [''-Xcc'', arg])
                                 (generateCC1CommandLine clang
                                    (invocation\<lparr>ProgramAction := GeneratePCH,
                                                 ModuleCacheKeys := [],
                                                 PathPrefixMappings := [],
                                                 OutputFile := []\<rparr>)))
                   @ CASConfigurationFlags ctx
                   @ (case TU_IncludeTreeID deps of
                        None \<Rightarrow> [] | Some Tree \<Rightarrow> [''-clang-include-tree-root'', Tree])
                   @ (case TU_CASFileSystemRootID deps of
                        None \<Rightarrow> []
                      | Some CASFS \<Rightarrow> [''-no-clang-include-tree'', ''-cas-fs'', CASFS])))"
  using assms
  by (simp add: recordBridgingHeaderOptions_def Let_def fold_addClangArg fold_push_back_single
      split: option.splits)

lemma reparse_in_bridge:
  "(\<forall>m \<in> set graph. fst (CreateFromArgs clang (BuildArguments m))) \<longrightarrow>
     (\<exists>result. bridgeClangModuleDependencies lib clang ctx graph out cb = Inr result
        \<and> length result = length graph
        \<and> (\<forall>i < length graph. \<exists>d before after cleared.
              details (snd (result ! i)) = ClangModule d
              \<and> cleared = (snd (CreateFromArgs clang (BuildArguments (graph ! i))))
                             \<lparr>ModuleCacheKeys := [], PathPrefixMappings := []\<rparr>
              \<and> ModuleCacheKeys cleared = [] \<and> PathPrefixMappings cleared = []
              \<and> buildCommandLine d =
                   before @ concat (map (\<lambda>arg. [''-Xcc'', arg])
                                        (generateCC1CommandLine clang cleared)) @ after))"
proof
  assume a: "\<forall>m \<in> set graph. fst (CreateFromArgs clang (BuildArguments m))"
  from bridgeClangModuleDependencies_entries [OF a, of lib ctx out cb]
  obtain result where res: "bridgeClangModuleDependencies lib clang ctx graph out cb = Inr result"
    and len: "length result = length graph"
    and each: "\<forall>i < length graph.
                 bridgeClangModuleDep lib clang ctx out cb (graph ! i) = Inr (result ! i)"
    by blast
  have "\<exists>d before after cleared.
            details (snd (result ! i)) = ClangModule d
            \<and> cleared = (snd (CreateFromArgs clang (BuildArguments (graph ! i))))
                           \<lparr>ModuleCacheKeys := [], PathPrefixMappings := []\<rparr>
            \<and> ModuleCacheKeys cleared = [] \<and> PathPrefixMappings cleared = []
            \<and> buildCommandLine d =
                 before @ concat (map (\<lambda>arg. [''-Xcc'', arg])
                                      (generateCC1CommandLine clang cleared)) @ after"
    if i: "i < length graph" for i
  proof -
    let ?m = "graph ! i"
    from i a have "fst (CreateFromArgs clang (BuildArguments ?m))" by simp
    then have "CreateFromArgs clang (BuildArguments ?m)
                 = (True, snd (CreateFromArgs clang (BuildArguments ?m)))"
      by (cases "CreateFromArgs clang (BuildArguments ?m)") simp
    from bridgeClangModuleDep_success [OF this, of lib ctx out cb] each i
    obtain pre where p: "result ! i = ((ModuleName (ID ?m), Clang), setIsResolved pre True)"
      and d: "details pre = ClangModule
             \<lparr>pcmOutputPath = moduleCacheRelativeLookupModuleOutput lib (ID ?m) ModuleFile out,
              moduleMapFile = ClangModuleMapFile ?m,
              contextHash = ContextHash (ID ?m),
              buildCommandLine =
                [''-frontend'', ''-emit-pcm'', ''-module-name'', ModuleName (ID ?m),
                 ''-o'', moduleCacheRelativeLookupModuleOutput lib (ID ?m) ModuleFile out,
                 ''-direct-clang-cc1-module-build'',
                 (case cb of Some f \<Rightarrow> f (ClangModuleMapFile ?m) | None \<Rightarrow> ClangModuleMapFile ?m)]
                @ concat (map (\<lambda>overlay. [''-vfsoverlay'',
                                case cb of Some f \<Rightarrow> f overlay | None \<Rightarrow> overlay])
                              (VFSOverlayFiles ctx))
                @ concat (map (\<lambda>overlay. [''-vfsoverlay'', overlay])
                              (filter (\<lambda>overlay. overlay \<notin> set (VFSOverlayFiles ctx))
                                      (HeaderSearch_VFSOverlayFiles (snd (CreateFromArgs clang (BuildArguments ?m))))))
                @ concat (map (\<lambda>arg. [''-Xcc'', arg])
                              (generateCC1CommandLine clang
                                 ((snd (CreateFromArgs clang (BuildArguments ?m)))\<lparr>ModuleCacheKeys := [], PathPrefixMappings := []\<rparr>)))
                @ CASConfigurationFlags ctx
                @ (case CASFileSystemRootID ?m of
                     None \<Rightarrow> []
                   | Some rootID \<Rightarrow> if rootID = [] then []
                                    else [''-no-clang-include-tree'', ''-cas-fs'', rootID])
                @ (case IncludeTreeID ?m of
                     None \<Rightarrow> []
                   | Some treeID \<Rightarrow> if treeID = [] then []
                                    else [''-clang-include-tree-root'', treeID]),
              fileDependencies = FileDeps ?m,
              capturedPCMArgs = [''-Xcc'', ''-fapinotes-swift-version='' @ APINotesVersionString ctx],
              CASFileSystemRootID_details = (case CASFileSystemRootID ?m of Some r \<Rightarrow> r | None \<Rightarrow> []),
              clangIncludeTreeRoot = (case IncludeTreeID ?m of Some t \<Rightarrow> t | None \<Rightarrow> []),
              moduleCacheKey = []\<rparr>" (is "_ = ClangModule ?d")
      by auto
    have "details (snd (result ! i)) = ClangModule ?d"
      using p d by (simp add: setIsResolved_def)
    then show ?thesis
      apply (intro exI conjI)
          apply assumption
         apply (rule refl)
        apply simp
       apply simp
      apply (simp only: ClangModuleDetails.simps append_assoc)
      apply (subst append_assoc [symmetric])
      apply (subst append_assoc [symmetric])
      apply (rule refl)
      done
  qed
  with res len show "\<exists>result. bridgeClangModuleDependencies lib clang ctx graph out cb = Inr result
      \<and> length result = length graph
      \<and> (\<forall>i < length graph. \<exists>d before after cleared.
            details (snd (result ! i)) = ClangModule d
            \<and> cleared = (snd (CreateFromArgs clang (BuildArguments (graph ! i))))
                           \<lparr>ModuleCacheKeys := [], PathPrefixMappings := []\<rparr>
            \<and> ModuleCacheKeys cleared = [] \<and> PathPrefixMappings cleared = []
            \<and> buildCommandLine d =
                 before @ concat (map (\<lambda>arg. [''-Xcc'', arg])
                                      (generateCC1CommandLine clang cleared)) @ after)"
    by blast
qed

lemma reparse_in_header_options:
  "TU_Commands deps = arguments # rest \<and> CreateFromArgs clang arguments = (True, invocation) \<longrightarrow>
     (\<exists>after cleared.
        cleared = invocation\<lparr>ProgramAction := GeneratePCH, ModuleCacheKeys := [],
                              PathPrefixMappings := [], OutputFile := []\<rparr>
        \<and> ModuleCacheKeys cleared = [] \<and> PathPrefixMappings cleared = []
        \<and> recordBridgingHeaderOptions clang ctx MDI deps =
            Inr (updateBridgingHeaderCommandLine MDI
                   ([''-frontend'', ''-emit-pch'', ''-direct-clang-cc1-module-build'']
                    @ concat (map (\<lambda>arg. [''-Xcc'', arg]) (generateCC1CommandLine clang cleared))
                    @ after)))"
  by (auto simp: recordBridgingHeaderOptions_success)

text \<open>
  C9. After a successful reparse the invocation that is printed again has no cache keys
  and no path prefix mappings, and in the command line each printed argument comes
  directly after \<open>-Xcc\<close>: the command line is some arguments, then the pairs of
  \<open>-Xcc\<close> and a printed argument in order, then some arguments. This holds for a
  module of the scanner's graph and for the options of a bridging header.
\<close>

theorem reparsed_invocation_cleared_and_wrapped:
  "((\<forall>m \<in> set graph. fst (CreateFromArgs clang (BuildArguments m))) \<longrightarrow>
     (\<exists>result. bridgeClangModuleDependencies lib clang ctx graph out cb = Inr result
        \<and> length result = length graph
        \<and> (\<forall>i < length graph. \<exists>d before after cleared.
              details (snd (result ! i)) = ClangModule d
              \<and> cleared = (snd (CreateFromArgs clang (BuildArguments (graph ! i))))
                             \<lparr>ModuleCacheKeys := [], PathPrefixMappings := []\<rparr>
              \<and> ModuleCacheKeys cleared = [] \<and> PathPrefixMappings cleared = []
              \<and> buildCommandLine d =
                   before @ concat (map (\<lambda>arg. [''-Xcc'', arg])
                                        (generateCC1CommandLine clang cleared)) @ after)))
   \<and> (TU_Commands deps = arguments # rest \<and> CreateFromArgs clang arguments = (True, invocation) \<longrightarrow>
     (\<exists>after cleared.
        cleared = invocation\<lparr>ProgramAction := GeneratePCH, ModuleCacheKeys := [],
                              PathPrefixMappings := [], OutputFile := []\<rparr>
        \<and> ModuleCacheKeys cleared = [] \<and> PathPrefixMappings cleared = []
        \<and> recordBridgingHeaderOptions clang ctx MDI deps =
            Inr (updateBridgingHeaderCommandLine MDI
                   ([''-frontend'', ''-emit-pch'', ''-direct-clang-cc1-module-build'']
                    @ concat (map (\<lambda>arg. [''-Xcc'', arg]) (generateCC1CommandLine clang cleared))
                    @ after))))"
  using reparse_in_bridge reparse_in_header_options
  by (rule conjI)

theorem reparsed_invocation_cleared_and_wrapped_witness:
  "fst (CreateFromArgs exampleClang (BuildArguments exampleModule))
   \<and> (\<exists>result. bridgeClangModuleDependencies exampleLibrary exampleClang exampleContext
                   [exampleModule] ''/cache'' None = Inr result
        \<and> length result = 1
        \<and> (\<exists>d before after.
              details (snd (result ! 0)) = ClangModule d
              \<and> buildCommandLine d = before @ [''-Xcc'', ''-cc1''] @ after))
   \<and> TU_Commands (exampleUnit []) = [''-cc1''] # []
   \<and> fst (CreateFromArgs exampleClang [''-cc1''])
   \<and> (\<exists>after.
        recordBridgingHeaderOptions exampleClang exampleContext (exampleSourceModule [] [])
          (exampleUnit []) =
            Inr (updateBridgingHeaderCommandLine (exampleSourceModule [] [])
                   ([''-frontend'', ''-emit-pch'', ''-direct-clang-cc1-module-build'']
                    @ [''-Xcc'', ''-cc1''] @ after)))"
  using reparsed_invocation_cleared_and_wrapped
          [where graph = "[exampleModule]" and clang = exampleClang and lib = exampleLibrary
             and ctx = exampleContext and out = "''/cache''" and cb = None
             and deps = "exampleUnit []" and arguments = "[''-cc1'']" and rest = "[]"
             and invocation = "snd (CreateFromArgs exampleClang [''-cc1''])"
             and MDI = "exampleSourceModule [] []"]
  by (simp add: exampleClang_def exampleModule_def exampleUnit_def)

subsection \<open>Working-directory resolution\<close>


lemma computeClangWorkingDirectory_never_diagnoses:
  "computeClangWorkingDirectory commandLineArgs ctx = Inr (ctx', r) \<Longrightarrow> ctx' = ctx \<and> r \<noteq> None"
proof -
  assume a: "computeClangWorkingDirectory commandLineArgs ctx = Inr (ctx', r)"
  have "std_find (rev commandLineArgs) ''-working-directory'' \<le> length (rev commandLineArgs)"
    unfolding std_find_def by (rule std_find_if_le)
  then have "int (std_find (rev commandLineArgs) ''-working-directory'') - 1
               \<noteq> int (length commandLineArgs)"
    by simp
  with a show ?thesis
    by (auto simp: computeClangWorkingDirectory_def Let_def split: if_splits sum.splits)
qed

lemma computeClangWorkingDirectory_flag_last:
  "computeClangWorkingDirectory (pre @ [''-working-directory'']) ctx = Inl OutOfBoundsRead"
  by (simp add: computeClangWorkingDirectory_def std_find_def rdereference_def)






text \<open>
  C10. With several occurrences of the flag the last one decides: whatever precedes the
  last occurrence (earlier flags included), the result is the argument that follows the
  last occurrence.
\<close>

theorem computeClangWorkingDirectory_last_occurrence:
  assumes "''-working-directory'' \<notin> set (d # post)"
  shows "computeClangWorkingDirectory (pre @ ''-working-directory'' # d # post) ctx
           = Inr (ctx, Some d)"
proof -
  let ?args = "pre @ ''-working-directory'' # d # post"
  have r: "rev ?args = (rev post @ [d]) @ ''-working-directory'' # rev pre"
    by simp
  have "std_find_if (\<lambda>x. x = ''-working-directory'') (rev ?args) = length (rev post @ [d])"
    unfolding r using assms by (intro std_find_if_append_hit) auto
  then have pos: "std_find (rev ?args) ''-working-directory'' = Suc (length post)"
    by (simp add: std_find_def)
  have "rev ?args ! length post = d"
    unfolding r by (simp add: nth_append)
  then have "rdereference ?args (int (length post)) = Inr d"
    by (simp add: rdereference_def)
  with pos show ?thesis
    by (simp add: computeClangWorkingDirectory_def Let_def)
qed

theorem computeClangWorkingDirectory_last_occurrence_witness:
  "''-working-directory'' \<notin> set [''/second'', ''-gmodules''] \<and>
   (\<forall>ctx. computeClangWorkingDirectory
     ([''clang'', ''-working-directory'', ''/first''] @
        ''-working-directory'' # ''/second'' # [''-gmodules'']) ctx
     = Inr (ctx, Some ''/second''))"
  using computeClangWorkingDirectory_last_occurrence
          [of "''/second''" "[''-gmodules'']" "[''clang'', ''-working-directory'', ''/first'']"]
  by simp

subsection \<open>Dependencies of a Clang module\<close>

lemma getModuleDependencies_scanner_error:
  assumes "getClangDepScanningInvocationArguments ctx None = Inr commandLineArgs"
      and "computeClangWorkingDirectory commandLineArgs ctx = Inr (ctx1, Some workingDir)"
      and "tool_getModuleDependencies tool moduleName commandLineArgs workingDir alreadySeen
             (\<lambda>MID MOK. moduleCacheRelativeLookupModuleOutput lib MID MOK moduleOutputPath)
           = Inl errorStr"
  shows "getModuleDependencies lib clang ctx moduleName moduleOutputPath alreadySeen tool mapper
         = Inr (if \<not> sublist (''fatal error: module '' @ CHR 0x27 # moduleName @
                               CHR 0x27 # '' not found'') errorStr
                then diagnose ctx (clang_dependency_scan_error errorStr) else ctx,
                tool\<lparr>Requests := Requests tool @
                                    [ModuleScan moduleName commandLineArgs workingDir]\<rparr>,
                [])"
proof -
  from assms(2) have "ctx1 = ctx"
    by (auto dest: computeClangWorkingDirectory_never_diagnoses)
  with assms show ?thesis
    by (simp add: getModuleDependencies_def Let_def)
qed

text \<open>
  C8, as amended. When the scanner returns an error, the result is the empty vector and
  the error string is emitted as \<open>clang_dependency_scan_error\<close> exactly when it does not
  contain the text \<open>fatal error: module 'NAME' not found\<close> for the requested module.
\<close>

theorem scanner_error_filtering:
  assumes "getClangDepScanningInvocationArguments ctx None = Inr commandLineArgs"
      and "computeClangWorkingDirectory commandLineArgs ctx = Inr (ctx1, Some workingDir)"
      and "tool_getModuleDependencies tool moduleName commandLineArgs workingDir alreadySeen
             (\<lambda>MID MOK. moduleCacheRelativeLookupModuleOutput lib MID MOK moduleOutputPath)
           = Inl errorStr"
  shows "\<exists>ctx' tool'.
           getModuleDependencies lib clang ctx moduleName moduleOutputPath alreadySeen tool mapper
             = Inr (ctx', tool', [])
           \<and> Diags ctx' =
               (if sublist (''fatal error: module '' @ CHR 0x27 # moduleName @
                            CHR 0x27 # '' not found'') errorStr
                then Diags ctx
                else Diags ctx @ [clang_dependency_scan_error errorStr])"
  using getModuleDependencies_scanner_error [OF assms, of clang mapper]
  by (simp add: diagnose_def)

lemma example_arguments:
  "getClangDepScanningInvocationArguments exampleContext None
     = Inr [''clang'', ''-c'', ''-iframework'', ''/Frameworks'', ''-I'', ''/usr/include/foo'',
            ''-gmodules'']"
  by (simp add: getClangDepScanningInvocationArguments_def addSearchPathInvocationArguments_def
      exampleContext_def std_find_def erase_def Let_def)

lemma example_working_directory:
  "computeClangWorkingDirectory
     [''clang'', ''-c'', ''-iframework'', ''/Frameworks'', ''-I'', ''/usr/include/foo'',
      ''-gmodules''] exampleContext
   = Inr (exampleContext, Some ''/cwd'')"
  by (simp add: computeClangWorkingDirectory_def std_find_def exampleContext_def)

theorem scanner_error_filtering_witness:
  "getClangDepScanningInvocationArguments exampleContext None
     = Inr [''clang'', ''-c'', ''-iframework'', ''/Frameworks'', ''-I'', ''/usr/include/foo'',
            ''-gmodules'']
   \<and> computeClangWorkingDirectory
       [''clang'', ''-c'', ''-iframework'', ''/Frameworks'', ''-I'', ''/usr/include/foo'',
        ''-gmodules''] exampleContext
     = Inr (exampleContext, Some ''/cwd'')
   \<and> tool_getModuleDependencies
       (exampleTool (Inl ''<module-includes>:1:10: fatal error: module 'Foo' not found'')
                    (Inl []))
       ''Foo''
       [''clang'', ''-c'', ''-iframework'', ''/Frameworks'', ''-I'', ''/usr/include/foo'',
        ''-gmodules'']
       ''/cwd'' {}
       (\<lambda>MID MOK. moduleCacheRelativeLookupModuleOutput exampleLibrary MID MOK ''/cache'')
     = Inl ''<module-includes>:1:10: fatal error: module 'Foo' not found''
   \<and> (\<exists>ctx' tool'.
         getModuleDependencies exampleLibrary exampleClang exampleContext ''Foo'' ''/cache'' {}
           (exampleTool (Inl ''<module-includes>:1:10: fatal error: module 'Foo' not found'')
                        (Inl []))
           None
         = Inr (ctx', tool', [])
         \<and> Diags ctx' = Diags exampleContext)"
proof -
  have t: "tool_getModuleDependencies
       (exampleTool (Inl ''<module-includes>:1:10: fatal error: module 'Foo' not found'')
                    (Inl []))
       ''Foo''
       [''clang'', ''-c'', ''-iframework'', ''/Frameworks'', ''-I'', ''/usr/include/foo'',
        ''-gmodules'']
       ''/cwd'' {}
       (\<lambda>MID MOK. moduleCacheRelativeLookupModuleOutput exampleLibrary MID MOK ''/cache'')
     = Inl ''<module-includes>:1:10: fatal error: module 'Foo' not found''"
    by (simp add: exampleTool_def)
  have s: "sublist (''fatal error: module '' @ CHR 0x27 # ''Foo'' @ CHR 0x27 # '' not found'')
             ''<module-includes>:1:10: fatal error: module 'Foo' not found''"
    by (simp add: sublist_code)
  from scanner_error_filtering [OF example_arguments example_working_directory t,
         of exampleClang None] s
  show ?thesis
    using example_arguments example_working_directory t by simp
qed

text \<open>
  An error string that contains \<open>module 'Foo' not found\<close> without \<open>fatal error: \<close>
  in front of it is emitted.
\<close>

theorem scanner_error_filtering_counterexample:
  "sublist (''module '' @ CHR 0x27 # ''Foo'' @ CHR 0x27 # '' not found'')
           ''error: module 'Foo' not found''
   \<and> getModuleDependencies exampleLibrary exampleClang exampleContext ''Foo'' ''/cache'' {}
       (exampleTool (Inl ''error: module 'Foo' not found'') (Inl [])) None
     = Inr (exampleContext\<lparr>Diags := [clang_dependency_scan_error
                                         ''error: module 'Foo' not found'']\<rparr>,
            (exampleTool (Inl ''error: module 'Foo' not found'') (Inl []))
              \<lparr>Requests := [ModuleScan ''Foo''
                               [''clang'', ''-c'', ''-iframework'', ''/Frameworks'', ''-I'',
                                ''/usr/include/foo'', ''-gmodules'']
                               ''/cwd'']\<rparr>,
            [])"
proof -
  have s: "sublist (''module '' @ CHR 0x27 # ''Foo'' @ CHR 0x27 # '' not found'')
           ''error: module 'Foo' not found''"
    by (simp add: sublist_code)
  have n: "\<not> sublist (''fatal error: module '' @ CHR 0x27 # ''Foo'' @ CHR 0x27 # '' not found'')
           ''error: module 'Foo' not found''"
    by (simp add: sublist_code)
  have "getModuleDependencies exampleLibrary exampleClang exampleContext ''Foo'' ''/cache'' {}
       (exampleTool (Inl ''error: module 'Foo' not found'') (Inl [])) None
     = Inr (exampleContext\<lparr>Diags := [clang_dependency_scan_error
                                         ''error: module 'Foo' not found'']\<rparr>,
            (exampleTool (Inl ''error: module 'Foo' not found'') (Inl []))
              \<lparr>Requests := [ModuleScan ''Foo''
                               [''clang'', ''-c'', ''-iframework'', ''/Frameworks'', ''-I'',
                                ''/usr/include/foo'', ''-gmodules'']
                               ''/cwd'']\<rparr>,
            [])"
    using n
    by (simp add: getModuleDependencies_def example_arguments example_working_directory
        exampleTool_def diagnose_def Let_def) (simp add: exampleContext_def)
  with s show ?thesis by blast
qed

subsection \<open>Dependencies of a bridging header\<close>

lemma addBridgingHeaderDependencies_scanner_error:
  assumes find: "findDependency (DependenciesCache st) moduleID = Some targetModule"
      and kind: "details targetModule = SwiftInterfaceModule d
                 \<or> details targetModule = SwiftSourceModule d"
      and empty: "bridgingSourceFiles d = []" "bridgingModuleDependencies d = []"
      and hdr: "bridgingHeaderFile d = Some bridgingHeader"
      and args: "getClangDepScanningInvocationArguments (SwiftContext st) (Some bridgingHeader)
                   = Inr commandLineArgs"
      and wd: "computeClangWorkingDirectory commandLineArgs (SwiftContext st)
                 = Inr (ctx1, Some workingDir)"
      and err: "tool_getTranslationUnitDependencies (ScanningTool st) commandLineArgs workingDir
                  (alreadySeenClangModules (DependenciesCache st))
                  (\<lambda>MID MOK. moduleCacheRelativeLookupModuleOutput lib MID MOK moduleCachePath)
                = Inl errorStr"
  shows "addBridgingHeaderDependencies lib clang moduleCachePath moduleID st
         = Inr (True,
                st\<lparr>ScanningTool := (ScanningTool st)
                       \<lparr>Requests := Requests (ScanningTool st) @
                                      [TranslationUnitScan commandLineArgs workingDir]\<rparr>,
                    errs := errs st @ [errorStr]\<rparr>)"
proof -
  from wd have c: "ctx1 = SwiftContext st"
    by (auto dest: computeClangWorkingDirectory_never_diagnoses)
  have scan: "scanBridgingHeader lib clang moduleCachePath moduleID targetModule st
         = Inr (True,
                st\<lparr>ScanningTool := (ScanningTool st)
                       \<lparr>Requests := Requests (ScanningTool st) @
                                      [TranslationUnitScan commandLineArgs workingDir]\<rparr>,
                    errs := errs st @ [errorStr]\<rparr>)"
    using kind hdr args wd err c
    by (auto simp: scanBridgingHeader_def getBridgingHeader_def Let_def)
  from kind show ?thesis
  proof
    assume "details targetModule = SwiftInterfaceModule d"
    with find empty scan show ?thesis
      by (simp add: addBridgingHeaderDependencies_def getAsSwiftInterfaceModule_def)
  next
    assume "details targetModule = SwiftSourceModule d"
    with find empty scan show ?thesis
      by (simp add: addBridgingHeaderDependencies_def getAsSwiftInterfaceModule_def
          getAsSwiftSourceModule_def)
  qed
qed


text \<open>
  C4. A scan that fails leaves the cache as it was. \<open>getModuleDependencies\<close>, which has
  no access to a cache, returns the empty vector; \<open>addBridgingHeaderDependencies\<close>
  returns true in a state whose cache is the cache it was given.
\<close>

theorem scan_failure_leaves_cache_unchanged:
  "(getClangDepScanningInvocationArguments ctx None = Inr moduleArgs
    \<and> computeClangWorkingDirectory moduleArgs ctx = Inr (moduleCtx, Some moduleDir)
    \<and> tool_getModuleDependencies tool moduleName moduleArgs moduleDir alreadySeen
         (\<lambda>MID MOK. moduleCacheRelativeLookupModuleOutput lib MID MOK moduleOutputPath)
       = Inl moduleError
    \<longrightarrow> (\<exists>ctx' tool'.
           getModuleDependencies lib clang ctx moduleName moduleOutputPath alreadySeen tool mapper
             = Inr (ctx', tool', [])))
   \<and> (findDependency (DependenciesCache st) moduleID = Some targetModule
      \<and> (details targetModule = SwiftInterfaceModule d
         \<or> details targetModule = SwiftSourceModule d)
      \<and> bridgingSourceFiles d = [] \<and> bridgingModuleDependencies d = []
      \<and> bridgingHeaderFile d = Some bridgingHeader
      \<and> getClangDepScanningInvocationArguments (SwiftContext st) (Some bridgingHeader)
          = Inr commandLineArgs
      \<and> computeClangWorkingDirectory commandLineArgs (SwiftContext st)
          = Inr (headerCtx, Some workingDir)
      \<and> tool_getTranslationUnitDependencies (ScanningTool st) commandLineArgs workingDir
           (alreadySeenClangModules (DependenciesCache st))
           (\<lambda>MID MOK. moduleCacheRelativeLookupModuleOutput lib MID MOK moduleCachePath)
         = Inl errorStr
      \<longrightarrow> (\<exists>st'. addBridgingHeaderDependencies lib clang moduleCachePath moduleID st
                   = Inr (True, st')
                 \<and> DependenciesCache st' = DependenciesCache st))"
proof (intro conjI impI)
  assume "getClangDepScanningInvocationArguments ctx None = Inr moduleArgs
    \<and> computeClangWorkingDirectory moduleArgs ctx = Inr (moduleCtx, Some moduleDir)
    \<and> tool_getModuleDependencies tool moduleName moduleArgs moduleDir alreadySeen
         (\<lambda>MID MOK. moduleCacheRelativeLookupModuleOutput lib MID MOK moduleOutputPath)
       = Inl moduleError"
  then show "\<exists>ctx' tool'.
           getModuleDependencies lib clang ctx moduleName moduleOutputPath alreadySeen tool mapper
             = Inr (ctx', tool', [])"
    by (simp add: getModuleDependencies_scanner_error)
next
  assume "findDependency (DependenciesCache st) moduleID = Some targetModule
      \<and> (details targetModule = SwiftInterfaceModule d
         \<or> details targetModule = SwiftSourceModule d)
      \<and> bridgingSourceFiles d = [] \<and> bridgingModuleDependencies d = []
      \<and> bridgingHeaderFile d = Some bridgingHeader
      \<and> getClangDepScanningInvocationArguments (SwiftContext st) (Some bridgingHeader)
          = Inr commandLineArgs
      \<and> computeClangWorkingDirectory commandLineArgs (SwiftContext st)
          = Inr (headerCtx, Some workingDir)
      \<and> tool_getTranslationUnitDependencies (ScanningTool st) commandLineArgs workingDir
           (alreadySeenClangModules (DependenciesCache st))
           (\<lambda>MID MOK. moduleCacheRelativeLookupModuleOutput lib MID MOK moduleCachePath)
         = Inl errorStr"
  then have "addBridgingHeaderDependencies lib clang moduleCachePath moduleID st
         = Inr (True,
                st\<lparr>ScanningTool := (ScanningTool st)
                       \<lparr>Requests := Requests (ScanningTool st) @
                                      [TranslationUnitScan commandLineArgs workingDir]\<rparr>,
                    errs := errs st @ [errorStr]\<rparr>)"
    by (intro addBridgingHeaderDependencies_scanner_error) blast+
  then show "\<exists>st'. addBridgingHeaderDependencies lib clang moduleCachePath moduleID st
                   = Inr (True, st')
                 \<and> DependenciesCache st' = DependenciesCache st"
    by simp
qed

lemma example_header_arguments:
  "getClangDepScanningInvocationArguments exampleContext (Some ''Input.h'')
     = Inr [''clang'', ''-c'', ''Input.h'', ''-iframework'', ''/Frameworks'', ''-I'',
            ''/usr/include/foo'', ''-gmodules'']"
  by (simp add: getClangDepScanningInvocationArguments_def addSearchPathInvocationArguments_def
      exampleContext_def std_find_def erase_def Let_def)

lemma example_header_working_directory:
  "computeClangWorkingDirectory
     [''clang'', ''-c'', ''Input.h'', ''-iframework'', ''/Frameworks'', ''-I'',
      ''/usr/include/foo'', ''-gmodules''] exampleContext
   = Inr (exampleContext, Some ''/cwd'')"
  by (simp add: computeClangWorkingDirectory_def std_find_def exampleContext_def)

theorem scan_failure_leaves_cache_unchanged_witness:
  "getClangDepScanningInvocationArguments exampleContext None
     = Inr [''clang'', ''-c'', ''-iframework'', ''/Frameworks'', ''-I'', ''/usr/include/foo'',
            ''-gmodules'']
   \<and> computeClangWorkingDirectory
       [''clang'', ''-c'', ''-iframework'', ''/Frameworks'', ''-I'', ''/usr/include/foo'',
        ''-gmodules''] exampleContext
     = Inr (exampleContext, Some ''/cwd'')
   \<and> (\<exists>ctx' tool'.
         getModuleDependencies exampleLibrary exampleClang exampleContext ''Foo'' ''/cache'' {}
           (exampleTool (Inl ''no such file'') (Inl ''scan failed'')) None
         = Inr (ctx', tool', []))
   \<and> findDependency
       (DependenciesCache (exampleState (exampleSourceModule [] [])
                             (exampleTool (Inl ''no such file'') (Inl ''scan failed''))))
       (''Main'', SwiftSource) = Some (exampleSourceModule [] [])
   \<and> getClangDepScanningInvocationArguments exampleContext (Some ''Input.h'')
     = Inr [''clang'', ''-c'', ''Input.h'', ''-iframework'', ''/Frameworks'', ''-I'',
            ''/usr/include/foo'', ''-gmodules'']
   \<and> (\<exists>st'. addBridgingHeaderDependencies exampleLibrary exampleClang ''/clang-cache''
                 (''Main'', SwiftSource)
                 (exampleState (exampleSourceModule [] [])
                    (exampleTool (Inl ''no such file'') (Inl ''scan failed'')))
               = Inr (True, st')
             \<and> DependenciesCache st'
               = DependenciesCache (exampleState (exampleSourceModule [] [])
                                      (exampleTool (Inl ''no such file'') (Inl ''scan failed''))))"
  using scan_failure_leaves_cache_unchanged
          [where ctx = exampleContext and moduleCtx = exampleContext and headerCtx = exampleContext
             and moduleArgs = "[''clang'', ''-c'', ''-iframework'', ''/Frameworks'', ''-I'',
                                ''/usr/include/foo'', ''-gmodules'']"
             and moduleDir = "''/cwd''" and moduleName = "''Foo''" and alreadySeen = "{}"
             and tool = "exampleTool (Inl ''no such file'') (Inl ''scan failed'')"
             and lib = exampleLibrary and clang = exampleClang
             and moduleOutputPath = "''/cache''" and moduleError = "''no such file''"
             and mapper = None
             and st = "exampleState (exampleSourceModule [] [])
                         (exampleTool (Inl ''no such file'') (Inl ''scan failed''))"
             and moduleID = "(''Main'', SwiftSource)"
             and targetModule = "exampleSourceModule [] []"
             and d = "\<lparr>bridgingHeaderFile = Some ''Input.h'', bridgingSourceFiles = [],
                        bridgingModuleDependencies = [], bridgingHeaderIncludeTree = None,
                        bridgingHeaderBuildCommandLine = []\<rparr>"
             and bridgingHeader = "''Input.h''"
             and commandLineArgs = "[''clang'', ''-c'', ''Input.h'', ''-iframework'',
                                     ''/Frameworks'', ''-I'', ''/usr/include/foo'', ''-gmodules'']"
             and workingDir = "''/cwd''" and errorStr = "''scan failed''"
             and moduleCachePath = "''/clang-cache''"]
        example_arguments example_working_directory
        example_header_arguments example_header_working_directory
  by (simp add: exampleState_def exampleCache_def exampleSourceModule_def exampleTool_def
      findDependency_def)

lemma addBridgingHeaderDependencies_already_recorded:
  assumes "findDependency (DependenciesCache st) moduleID = Some targetModule"
      and "details targetModule = SwiftInterfaceModule d
           \<or> details targetModule = SwiftSourceModule d"
      and "bridgingSourceFiles d \<noteq> [] \<or> bridgingModuleDependencies d \<noteq> []"
  shows "addBridgingHeaderDependencies lib clang moduleCachePath moduleID st = Inr (False, st)"
  using assms
  by (auto simp: addBridgingHeaderDependencies_def getAsSwiftInterfaceModule_def
      getAsSwiftSourceModule_def)

text \<open>The bridging details of a host module, through the mutators.\<close>

lemma updateTextualDetails_details:
  assumes "C = SwiftInterfaceModule \<or> C = SwiftSourceModule" and "details t = C d"
  shows "details (updateTextualDetails f t) = C (f d)"
  using assms by (auto simp: updateTextualDetails_def)

lemma fold_addBridgingSourceFile:
  assumes "C = SwiftInterfaceModule \<or> C = SwiftSourceModule" and "details t = C d"
  shows "details (fold (\<lambda>fileDep t. addBridgingSourceFile t fileDep) files t)
         = C (d\<lparr>bridgingSourceFiles := bridgingSourceFiles d @ files\<rparr>)"
  using assms(2)
proof (induction files arbitrary: t d)
  case Nil
  then show ?case by simp
next
  case (Cons f files)
  from updateTextualDetails_details [OF assms(1) Cons.prems]
  have "details (addBridgingSourceFile t f)
          = C (d\<lparr>bridgingSourceFiles := bridgingSourceFiles d @ [f]\<rparr>)"
    by (simp add: addBridgingSourceFile_def)
  from Cons.IH [OF this] show ?case by simp
qed

lemma addBridgingModuleDependencies_details:
  assumes "C = SwiftInterfaceModule \<or> C = SwiftSourceModule" and "details t = C d"
  shows "\<exists>names. details (addBridgingModuleDependencies deps t added)
           = C (d\<lparr>bridgingModuleDependencies := bridgingModuleDependencies d @ names\<rparr>)
         \<and> (names = [] \<longrightarrow> (\<forall>dep \<in> set deps. ModuleName dep \<in> added))"
  using assms(2)
proof (induction deps arbitrary: t d added)
  case Nil
  then show ?case by (intro exI [of _ "[]"]) simp
next
  case (Cons dep deps)
  show ?case
  proof (cases "ModuleName dep \<in> added")
    case True
    with Cons.IH [OF Cons.prems, of added] show ?thesis
      by (auto simp: addBridgingModuleDependency_def)
  next
    case False
    from updateTextualDetails_details [OF assms(1) Cons.prems]
    have "details (updateTextualDetails
             (\<lambda>d. d\<lparr>bridgingModuleDependencies := bridgingModuleDependencies d @ [ModuleName dep]\<rparr>) t)
          = C (d\<lparr>bridgingModuleDependencies := bridgingModuleDependencies d @ [ModuleName dep]\<rparr>)"
      by simp
    from Cons.IH [OF this, of "insert (ModuleName dep) added"]
    obtain names where
      "details (addBridgingModuleDependencies deps
                 (updateTextualDetails
             (\<lambda>d. d\<lparr>bridgingModuleDependencies := bridgingModuleDependencies d @ [ModuleName dep]\<rparr>) t)
                 (insert (ModuleName dep) added))
       = C (d\<lparr>bridgingModuleDependencies := bridgingModuleDependencies d @ ModuleName dep # names\<rparr>)"
      by auto
    with False show ?thesis
      by (intro exI [of _ "ModuleName dep # names"]) (simp add: addBridgingModuleDependency_def)
  qed
qed


lemma recordBridgingHeaderOptions_Inr:
  "recordBridgingHeaderOptions clang ctx MDI deps = Inr r \<Longrightarrow>
   \<exists>commandLine. r = updateBridgingHeaderCommandLine MDI commandLine"
  by (auto simp: recordBridgingHeaderOptions_def Let_def
      split: list.splits prod.splits if_splits)

lemma findDependency_updateDependency:
  "findDependency (updateDependency cache moduleID info) moduleID = Some info"
  by (simp add: findDependency_def updateDependency_def)

lemma scanBridgingHeader_success_record:
  assumes kind: "C = SwiftInterfaceModule \<or> C = SwiftSourceModule"
      and det: "details targetModule = C d"
      and res: "scanBridgingHeader lib clang moduleCachePath moduleID targetModule st
                  = Inr (False, st1)"
  shows "\<exists>args dir deps t1 d1 names.
           tool_getTranslationUnitDependencies (ScanningTool st) args dir
             (alreadySeenClangModules (DependenciesCache st))
             (\<lambda>MID MOK. moduleCacheRelativeLookupModuleOutput lib MID MOK moduleCachePath)
           = Inr deps
         \<and> Requests (ScanningTool st1)
             = Requests (ScanningTool st) @ [TranslationUnitScan args dir]
         \<and> findDependency (DependenciesCache st1) moduleID = Some t1
         \<and> details t1 = C d1
         \<and> bridgingSourceFiles d1 = bridgingSourceFiles d @ TU_FileDeps deps
         \<and> bridgingModuleDependencies d1 = bridgingModuleDependencies d @ names
         \<and> (names = [] \<longrightarrow> TU_ClangModuleDeps deps = [])"
proof -
  from res obtain hdr where "getBridgingHeader targetModule = Some hdr"
    by (auto simp: scanBridgingHeader_def Let_def split: option.splits)
  with res obtain args where
    args: "getClangDepScanningInvocationArguments (SwiftContext st) (Some hdr) = Inr args"
    by (auto simp: scanBridgingHeader_def Let_def split: sum.splits)
  with res \<open>getBridgingHeader targetModule = Some hdr\<close> obtain ctx1 dir where
    wd: "computeClangWorkingDirectory args (SwiftContext st) = Inr (ctx1, Some dir)"
    by (auto simp: scanBridgingHeader_def Let_def split: sum.splits option.splits)
  let ?lookup = "\<lambda>MID MOK. moduleCacheRelativeLookupModuleOutput lib MID MOK moduleCachePath"
  let ?cache = "DependenciesCache st"
  from res \<open>getBridgingHeader targetModule = Some hdr\<close> args wd obtain deps where
    scan: "tool_getTranslationUnitDependencies (ScanningTool st) args dir
             (alreadySeenClangModules ?cache) ?lookup = Inr deps"
    by (auto simp: scanBridgingHeader_def Let_def split: sum.splits)
  let ?t3 = "case TU_IncludeTreeID deps of
               Some TreeID \<Rightarrow> addBridgingHeaderIncludeTree
                  (addBridgingModuleDependencies (TU_ClangModuleDeps deps)
                     (fold (\<lambda>fileDep t. addBridgingSourceFile t fileDep) (TU_FileDeps deps)
                        targetModule) {}) TreeID
             | None \<Rightarrow> addBridgingModuleDependencies (TU_ClangModuleDeps deps)
                     (fold (\<lambda>fileDep t. addBridgingSourceFile t fileDep) (TU_FileDeps deps)
                        targetModule) {}"
  from res \<open>getBridgingHeader targetModule = Some hdr\<close> args wd scan
  obtain bridged t4 where
    t4: "recordBridgingHeaderOptions clang ctx1 ?t3 deps = Inr t4"
    and st1: "DependenciesCache st1 = updateDependency (recordDependencies ?cache bridged) moduleID t4"
    and rq: "Requests (ScanningTool st1)
               = Requests (ScanningTool st) @ [TranslationUnitScan args dir]"
    by (auto simp: scanBridgingHeader_def Let_def split: sum.splits)
  from fold_addBridgingSourceFile [OF kind det, of "TU_FileDeps deps"]
  have f: "details (fold (\<lambda>fileDep t. addBridgingSourceFile t fileDep) (TU_FileDeps deps)
                      targetModule)
           = C (d\<lparr>bridgingSourceFiles := bridgingSourceFiles d @ TU_FileDeps deps\<rparr>)" .
  from addBridgingModuleDependencies_details [OF kind f, of "TU_ClangModuleDeps deps" "{}"]
  obtain names where
    m: "details (addBridgingModuleDependencies (TU_ClangModuleDeps deps)
                   (fold (\<lambda>fileDep t. addBridgingSourceFile t fileDep) (TU_FileDeps deps)
                      targetModule) {})
        = C (d\<lparr>bridgingSourceFiles := bridgingSourceFiles d @ TU_FileDeps deps,
               bridgingModuleDependencies := bridgingModuleDependencies d @ names\<rparr>)"
    and n: "names = [] \<longrightarrow> TU_ClangModuleDeps deps = []"
    by auto
  have "\<exists>d3. details ?t3 = C d3
           \<and> bridgingSourceFiles d3 = bridgingSourceFiles d @ TU_FileDeps deps
           \<and> bridgingModuleDependencies d3 = bridgingModuleDependencies d @ names"
  proof (cases "TU_IncludeTreeID deps")
    case None
    with m show ?thesis
      by (intro exI [of _ "d\<lparr>bridgingSourceFiles := bridgingSourceFiles d @ TU_FileDeps deps,
               bridgingModuleDependencies := bridgingModuleDependencies d @ names\<rparr>"]) simp
  next
    case (Some TreeID)
    with updateTextualDetails_details [OF kind m] show ?thesis
      by (intro exI [of _ "d\<lparr>bridgingSourceFiles := bridgingSourceFiles d @ TU_FileDeps deps,
               bridgingModuleDependencies := bridgingModuleDependencies d @ names,
               bridgingHeaderIncludeTree := Some TreeID\<rparr>"])
         (simp add: addBridgingHeaderIncludeTree_def)
  qed
  then obtain d3 where d3: "details ?t3 = C d3"
      "bridgingSourceFiles d3 = bridgingSourceFiles d @ TU_FileDeps deps"
      "bridgingModuleDependencies d3 = bridgingModuleDependencies d @ names"
    by blast
  from recordBridgingHeaderOptions_Inr [OF t4] obtain commandLine where
    "t4 = updateBridgingHeaderCommandLine ?t3 commandLine" by blast
  with updateTextualDetails_details [OF kind d3(1)]
  have d4: "details t4 = C (d3\<lparr>bridgingHeaderBuildCommandLine := commandLine\<rparr>)"
    by (simp add: updateBridgingHeaderCommandLine_def)
  from st1 have "findDependency (DependenciesCache st1) moduleID = Some t4"
    by (simp add: findDependency_updateDependency)
  with scan rq d4 d3(2,3) n show ?thesis
    by (intro exI [of _ args] exI [of _ dir] exI [of _ deps] exI [of _ t4]
        exI [of _ "d3\<lparr>bridgingHeaderBuildCommandLine := commandLine\<rparr>"] exI [of _ names]) simp
qed


lemma example_first_call:
  "addBridgingHeaderDependencies exampleLibrary exampleClang ''/clang-cache''
     (''Main'', SwiftSource)
     (exampleState (exampleSourceModule [] commandLine)
        ((exampleTool (Inl []) (Inr (exampleUnit files)))\<lparr>Requests := requests\<rparr>))
   = Inr (False,
          exampleState
            (exampleSourceModule files
               [''-frontend'', ''-emit-pch'', ''-direct-clang-cc1-module-build'',
                ''-Xcc'', ''-cc1'', ''-cache-compile-job''])
            ((exampleTool (Inl []) (Inr (exampleUnit files)))
               \<lparr>Requests := requests @
                   [TranslationUnitScan
                      [''clang'', ''-c'', ''Input.h'', ''-iframework'', ''/Frameworks'', ''-I'',
                       ''/usr/include/foo'', ''-gmodules'']
                      ''/cwd'']\<rparr>))"
proof -
  have b: "bridgeClangModuleDependencies exampleLibrary exampleClang exampleContext [] ''/cache''
             (Some (\<lambda>path. path)) = Inr []"
    by (simp add: bridgeClangModuleDependencies_def)
  have t: "fold (\<lambda>fileDep t. addBridgingSourceFile t fileDep) files
             (exampleSourceModule [] commandLine) = exampleSourceModule files commandLine"
    for files
    by (induction files rule: rev_induct)
       (simp_all add: addBridgingSourceFile_def updateTextualDetails_def exampleSourceModule_def)
  have r: "recordBridgingHeaderOptions exampleClang exampleContext
             (exampleSourceModule files commandLine) (exampleUnit files)
           = Inr (exampleSourceModule files
               [''-frontend'', ''-emit-pch'', ''-direct-clang-cc1-module-build'',
                ''-Xcc'', ''-cc1'', ''-cache-compile-job''])"
    by (simp add: recordBridgingHeaderOptions_def exampleUnit_def exampleClang_def Let_def
        addClangArg_def exampleContext_def updateBridgingHeaderCommandLine_def
        updateTextualDetails_def exampleSourceModule_def)
  have h: "getBridgingHeader (exampleSourceModule [] commandLine) = Some ''Input.h''"
    by (simp add: getBridgingHeader_def exampleSourceModule_def)
  have u: "TU_FileDeps (exampleUnit files) = files" "TU_ClangModuleDeps (exampleUnit files) = []"
    "TU_IncludeTreeID (exampleUnit files) = None" "TU_ModuleGraph (exampleUnit files) = []"
    by (simp_all add: exampleUnit_def)
  have c: "updateDependency (recordDependencies (exampleCache info) []) (''Main'', SwiftSource) info'
           = exampleCache info'" for info info'
    by (simp add: updateDependency_def recordDependencies_def exampleCache_def)
  have p: "alreadySeenClangModules (exampleCache info) = {}"
    "cacheModuleOutputPath (exampleCache info) = ''/cache''"
    "scanServiceRemapPath (exampleCache info) = (\<lambda>path. path)" for info
    by (simp_all add: exampleCache_def)
  have s: "scanBridgingHeader exampleLibrary exampleClang ''/clang-cache''
     (''Main'', SwiftSource) (exampleSourceModule [] commandLine)
     (exampleState (exampleSourceModule [] commandLine)
        ((exampleTool (Inl []) (Inr (exampleUnit files)))\<lparr>Requests := requests\<rparr>))
   = Inr (False,
          exampleState
            (exampleSourceModule files
               [''-frontend'', ''-emit-pch'', ''-direct-clang-cc1-module-build'',
                ''-Xcc'', ''-cc1'', ''-cache-compile-job''])
            ((exampleTool (Inl []) (Inr (exampleUnit files)))
               \<lparr>Requests := requests @
                   [TranslationUnitScan
                      [''clang'', ''-c'', ''Input.h'', ''-iframework'', ''/Frameworks'', ''-I'',
                       ''/usr/include/foo'', ''-gmodules'']
                      ''/cwd'']\<rparr>))"
    by (simp add: scanBridgingHeader_def exampleState_def h u c t r b
        example_header_arguments example_header_working_directory Let_def
        exampleTool_def p)
  have k: "getAsSwiftInterfaceModule (exampleSourceModule [] commandLine) = None"
    "getAsSwiftSourceModule (exampleSourceModule [] commandLine)
       = Some \<lparr>bridgingHeaderFile = Some ''Input.h'', bridgingSourceFiles = [],
               bridgingModuleDependencies = [], bridgingHeaderIncludeTree = None,
               bridgingHeaderBuildCommandLine = commandLine\<rparr>"
    by (simp_all add: getAsSwiftInterfaceModule_def getAsSwiftSourceModule_def
        exampleSourceModule_def)
  have f: "findDependency (DependenciesCache (exampleState info tool)) (''Main'', SwiftSource)
           = Some info" for info tool
    by (simp add: findDependency_def exampleState_def exampleCache_def)
  show ?thesis
    by (simp add: addBridgingHeaderDependencies_def f k s)
qed


lemma addBridgingHeaderDependencies_second_call:
  assumes first: "addBridgingHeaderDependencies lib clang moduleCachePath moduleID st = Inr (False, st1)"
      and reports: "\<forall>args dir deps.
                      Requests (ScanningTool st1)
                        = Requests (ScanningTool st) @ [TranslationUnitScan args dir]
                      \<and> tool_getTranslationUnitDependencies (ScanningTool st) args dir
                          (alreadySeenClangModules (DependenciesCache st))
                          (\<lambda>MID MOK. moduleCacheRelativeLookupModuleOutput lib MID MOK
                                        moduleCachePath)
                        = Inr deps
                      \<longrightarrow> TU_FileDeps deps \<noteq> [] \<or> TU_ClangModuleDeps deps \<noteq> []"
  shows "addBridgingHeaderDependencies lib clang moduleCachePath moduleID st1 = Inr (False, st1)"
proof -
  from first obtain targetModule where
    find: "findDependency (DependenciesCache st) moduleID = Some targetModule"
    by (auto simp: addBridgingHeaderDependencies_def split: option.splits)
  from first find obtain C d where
    kind: "C = SwiftInterfaceModule \<or> C = SwiftSourceModule" and det: "details targetModule = C d"
    by (cases "details targetModule")
       (auto simp: addBridgingHeaderDependencies_def getAsSwiftInterfaceModule_def
          getAsSwiftSourceModule_def)
  show ?thesis
  proof (cases "bridgingSourceFiles d \<noteq> [] \<or> bridgingModuleDependencies d \<noteq> []")
    case True
    with find kind det have "addBridgingHeaderDependencies lib clang moduleCachePath moduleID st
                               = Inr (False, st)"
      by (intro addBridgingHeaderDependencies_already_recorded [where d = d]) auto
    with first show ?thesis by simp
  next
    case False
    with first find kind det
    have "scanBridgingHeader lib clang moduleCachePath moduleID targetModule st
            = Inr (False, st1)"
      by (auto simp: addBridgingHeaderDependencies_def getAsSwiftInterfaceModule_def
          getAsSwiftSourceModule_def)
    from scanBridgingHeader_success_record [OF kind det this]
    obtain args dir deps t1 d1 names where
      scan: "tool_getTranslationUnitDependencies (ScanningTool st) args dir
               (alreadySeenClangModules (DependenciesCache st))
               (\<lambda>MID MOK. moduleCacheRelativeLookupModuleOutput lib MID MOK moduleCachePath)
             = Inr deps"
      and made: "Requests (ScanningTool st1)
                   = Requests (ScanningTool st) @ [TranslationUnitScan args dir]"
      and t1: "findDependency (DependenciesCache st1) moduleID = Some t1" "details t1 = C d1"
      and lists: "bridgingSourceFiles d1 = bridgingSourceFiles d @ TU_FileDeps deps"
        "bridgingModuleDependencies d1 = bridgingModuleDependencies d @ names"
        "names = [] \<longrightarrow> TU_ClangModuleDeps deps = []"
      by blast
    from reports scan made have "TU_FileDeps deps \<noteq> [] \<or> TU_ClangModuleDeps deps \<noteq> []"
      by blast
    with lists have "bridgingSourceFiles d1 \<noteq> [] \<or> bridgingModuleDependencies d1 \<noteq> []"
      by auto
    with t1 kind show ?thesis
      by (intro addBridgingHeaderDependencies_already_recorded [where d = d1]) auto
  qed
qed

text \<open>
  C3, as amended. A module whose cached record has a bridging source file or a bridging
  module dependency is left alone: the function returns false and the state it was given,
  with the same scanner requests and the same cache. After a call that returned false, a
  second call returns false and changes nothing, provided the scan that the first call
  made, if it made one, reported at least one file or one module dependency.
\<close>

theorem bridging_header_scan_idempotent:
  "(findDependency (DependenciesCache st) moduleID = Some targetModule
    \<and> (details targetModule = SwiftInterfaceModule d
       \<or> details targetModule = SwiftSourceModule d)
    \<and> (bridgingSourceFiles d \<noteq> [] \<or> bridgingModuleDependencies d \<noteq> [])
    \<longrightarrow> addBridgingHeaderDependencies lib clang moduleCachePath moduleID st = Inr (False, st))
   \<and> (addBridgingHeaderDependencies lib clang moduleCachePath moduleID before
        = Inr (False, after)
      \<and> (\<forall>args dir deps.
            Requests (ScanningTool after)
              = Requests (ScanningTool before) @ [TranslationUnitScan args dir]
            \<and> tool_getTranslationUnitDependencies (ScanningTool before) args dir
                (alreadySeenClangModules (DependenciesCache before))
                (\<lambda>MID MOK. moduleCacheRelativeLookupModuleOutput lib MID MOK moduleCachePath)
              = Inr deps
            \<longrightarrow> TU_FileDeps deps \<noteq> [] \<or> TU_ClangModuleDeps deps \<noteq> [])
      \<longrightarrow> addBridgingHeaderDependencies lib clang moduleCachePath moduleID after
            = Inr (False, after))"
proof (intro conjI impI)
  assume "findDependency (DependenciesCache st) moduleID = Some targetModule
    \<and> (details targetModule = SwiftInterfaceModule d
       \<or> details targetModule = SwiftSourceModule d)
    \<and> (bridgingSourceFiles d \<noteq> [] \<or> bridgingModuleDependencies d \<noteq> [])"
  then show "addBridgingHeaderDependencies lib clang moduleCachePath moduleID st = Inr (False, st)"
    by (intro addBridgingHeaderDependencies_already_recorded [where d = d]) blast+
next
  assume "addBridgingHeaderDependencies lib clang moduleCachePath moduleID before
        = Inr (False, after)
      \<and> (\<forall>args dir deps.
            Requests (ScanningTool after)
              = Requests (ScanningTool before) @ [TranslationUnitScan args dir]
            \<and> tool_getTranslationUnitDependencies (ScanningTool before) args dir
                (alreadySeenClangModules (DependenciesCache before))
                (\<lambda>MID MOK. moduleCacheRelativeLookupModuleOutput lib MID MOK moduleCachePath)
              = Inr deps
            \<longrightarrow> TU_FileDeps deps \<noteq> [] \<or> TU_ClangModuleDeps deps \<noteq> [])"
  then show "addBridgingHeaderDependencies lib clang moduleCachePath moduleID after
            = Inr (False, after)"
    by (intro addBridgingHeaderDependencies_second_call [where st = before]) blast+
qed

theorem bridging_header_scan_idempotent_witness:
  "findDependency
     (DependenciesCache (exampleState (exampleSourceModule [''Input.h''] [])
                           (exampleTool (Inl []) (Inl []))))
     (''Main'', SwiftSource) = Some (exampleSourceModule [''Input.h''] [])
   \<and> bridgingSourceFiles
       \<lparr>bridgingHeaderFile = Some ''Input.h'', bridgingSourceFiles = [''Input.h''],
        bridgingModuleDependencies = [], bridgingHeaderIncludeTree = None,
        bridgingHeaderBuildCommandLine = []\<rparr> \<noteq> []
   \<and> addBridgingHeaderDependencies exampleLibrary exampleClang ''/clang-cache''
       (''Main'', SwiftSource)
       (exampleState (exampleSourceModule [''Input.h''] []) (exampleTool (Inl []) (Inl [])))
     = Inr (False,
            exampleState (exampleSourceModule [''Input.h''] []) (exampleTool (Inl []) (Inl [])))
   \<and> addBridgingHeaderDependencies exampleLibrary exampleClang ''/clang-cache''
       (''Main'', SwiftSource)
       (exampleState (exampleSourceModule [] [])
          ((exampleTool (Inl []) (Inr (exampleUnit [''Input.h''])))\<lparr>Requests := []\<rparr>))
     = Inr (False,
            exampleState
              (exampleSourceModule [''Input.h'']
                 [''-frontend'', ''-emit-pch'', ''-direct-clang-cc1-module-build'',
                  ''-Xcc'', ''-cc1'', ''-cache-compile-job''])
              ((exampleTool (Inl []) (Inr (exampleUnit [''Input.h''])))
                 \<lparr>Requests :=
                     [TranslationUnitScan
                        [''clang'', ''-c'', ''Input.h'', ''-iframework'', ''/Frameworks'', ''-I'',
                         ''/usr/include/foo'', ''-gmodules'']
                        ''/cwd'']\<rparr>))
   \<and> addBridgingHeaderDependencies exampleLibrary exampleClang ''/clang-cache''
       (''Main'', SwiftSource)
       (exampleState
              (exampleSourceModule [''Input.h'']
                 [''-frontend'', ''-emit-pch'', ''-direct-clang-cc1-module-build'',
                  ''-Xcc'', ''-cc1'', ''-cache-compile-job''])
              ((exampleTool (Inl []) (Inr (exampleUnit [''Input.h''])))
                 \<lparr>Requests :=
                     [TranslationUnitScan
                        [''clang'', ''-c'', ''Input.h'', ''-iframework'', ''/Frameworks'', ''-I'',
                         ''/usr/include/foo'', ''-gmodules'']
                        ''/cwd'']\<rparr>))
     = Inr (False,
            exampleState
              (exampleSourceModule [''Input.h'']
                 [''-frontend'', ''-emit-pch'', ''-direct-clang-cc1-module-build'',
                  ''-Xcc'', ''-cc1'', ''-cache-compile-job''])
              ((exampleTool (Inl []) (Inr (exampleUnit [''Input.h''])))
                 \<lparr>Requests :=
                     [TranslationUnitScan
                        [''clang'', ''-c'', ''Input.h'', ''-iframework'', ''/Frameworks'', ''-I'',
                         ''/usr/include/foo'', ''-gmodules'']
                        ''/cwd'']\<rparr>))"
proof -
  let ?st = "exampleState (exampleSourceModule [''Input.h''] []) (exampleTool (Inl []) (Inl []))"
  let ?d = "\<lparr>bridgingHeaderFile = Some ''Input.h'', bridgingSourceFiles = [''Input.h''],
        bridgingModuleDependencies = [], bridgingHeaderIncludeTree = None,
        bridgingHeaderBuildCommandLine = []\<rparr>"
  let ?before = "exampleState (exampleSourceModule [] [])
          ((exampleTool (Inl []) (Inr (exampleUnit [''Input.h''])))\<lparr>Requests := []\<rparr>)"
  have f: "findDependency (DependenciesCache ?st) (''Main'', SwiftSource)
             = Some (exampleSourceModule [''Input.h''] [])"
    by (simp add: findDependency_def exampleState_def exampleCache_def)
  have k: "details (exampleSourceModule [''Input.h''] []) = SwiftSourceModule ?d"
    by (simp add: exampleSourceModule_def)
  have r: "tool_getTranslationUnitDependencies (ScanningTool ?before) args dir seen lookup
             = Inr deps
           \<longrightarrow> TU_FileDeps deps \<noteq> [] \<or> TU_ClangModuleDeps deps \<noteq> []"
    for args dir seen lookup deps
    by (auto simp: exampleState_def exampleTool_def exampleUnit_def)
  let ?after = "exampleState
              (exampleSourceModule [''Input.h'']
                 [''-frontend'', ''-emit-pch'', ''-direct-clang-cc1-module-build'',
                  ''-Xcc'', ''-cc1'', ''-cache-compile-job''])
              ((exampleTool (Inl []) (Inr (exampleUnit [''Input.h''])))
                 \<lparr>Requests :=
                     [TranslationUnitScan
                        [''clang'', ''-c'', ''Input.h'', ''-iframework'', ''/Frameworks'', ''-I'',
                         ''/usr/include/foo'', ''-gmodules'']
                        ''/cwd'']\<rparr>)"
  have first: "addBridgingHeaderDependencies exampleLibrary exampleClang ''/clang-cache''
                 (''Main'', SwiftSource) ?before = Inr (False, ?after)"
    using example_first_call [where commandLine = "[]" and files = "[''Input.h'']"
                                and requests = "[]"]
    by simp
  have made: "\<forall>args dir deps.
            Requests (ScanningTool ?after)
              = Requests (ScanningTool ?before) @ [TranslationUnitScan args dir]
            \<and> tool_getTranslationUnitDependencies (ScanningTool ?before) args dir
                (alreadySeenClangModules (DependenciesCache ?before))
                (\<lambda>MID MOK. moduleCacheRelativeLookupModuleOutput exampleLibrary MID MOK
                              ''/clang-cache'')
              = Inr deps
            \<longrightarrow> TU_FileDeps deps \<noteq> [] \<or> TU_ClangModuleDeps deps \<noteq> []"
    using r by blast
  note both = bridging_header_scan_idempotent
         [where st = ?st and moduleID = "(''Main'', SwiftSource)"
            and targetModule = "exampleSourceModule [''Input.h''] []" and d = ?d
            and lib = exampleLibrary and clang = exampleClang
            and moduleCachePath = "''/clang-cache''" and before = ?before and after = ?after]
  have early: "addBridgingHeaderDependencies exampleLibrary exampleClang ''/clang-cache''
                 (''Main'', SwiftSource) ?st = Inr (False, ?st)"
    using both [THEN conjunct1] f k by simp
  have again: "addBridgingHeaderDependencies exampleLibrary exampleClang ''/clang-cache''
                 (''Main'', SwiftSource) ?after = Inr (False, ?after)"
    using both [THEN conjunct2] first made by blast
  have nonempty: "bridgingSourceFiles ?d \<noteq> []" by simp
  show ?thesis
    by (intro conjI f nonempty early first again)
qed

text \<open>
  A first scan that reports no file and no module dependency succeeds and leaves both
  lists of the record empty, so the second call scans again: the tool has two requests.
\<close>

theorem bridging_header_scan_idempotent_counterexample:
  "addBridgingHeaderDependencies exampleLibrary exampleClang ''/clang-cache''
       (''Main'', SwiftSource)
       (exampleState (exampleSourceModule [] [])
          ((exampleTool (Inl []) (Inr (exampleUnit [])))\<lparr>Requests := []\<rparr>))
     = Inr (False,
            exampleState
              (exampleSourceModule []
                 [''-frontend'', ''-emit-pch'', ''-direct-clang-cc1-module-build'',
                  ''-Xcc'', ''-cc1'', ''-cache-compile-job''])
              ((exampleTool (Inl []) (Inr (exampleUnit [])))
                 \<lparr>Requests :=
                     [TranslationUnitScan
                        [''clang'', ''-c'', ''Input.h'', ''-iframework'', ''/Frameworks'', ''-I'',
                         ''/usr/include/foo'', ''-gmodules'']
                        ''/cwd'']\<rparr>))
   \<and> addBridgingHeaderDependencies exampleLibrary exampleClang ''/clang-cache''
       (''Main'', SwiftSource)
       (exampleState
              (exampleSourceModule []
                 [''-frontend'', ''-emit-pch'', ''-direct-clang-cc1-module-build'',
                  ''-Xcc'', ''-cc1'', ''-cache-compile-job''])
              ((exampleTool (Inl []) (Inr (exampleUnit [])))
                 \<lparr>Requests :=
                     [TranslationUnitScan
                        [''clang'', ''-c'', ''Input.h'', ''-iframework'', ''/Frameworks'', ''-I'',
                         ''/usr/include/foo'', ''-gmodules'']
                        ''/cwd'']\<rparr>))
     = Inr (False,
            exampleState
              (exampleSourceModule []
                 [''-frontend'', ''-emit-pch'', ''-direct-clang-cc1-module-build'',
                  ''-Xcc'', ''-cc1'', ''-cache-compile-job''])
              ((exampleTool (Inl []) (Inr (exampleUnit [])))
                 \<lparr>Requests :=
                     [TranslationUnitScan
                        [''clang'', ''-c'', ''Input.h'', ''-iframework'', ''/Frameworks'', ''-I'',
                         ''/usr/include/foo'', ''-gmodules'']
                        ''/cwd'',
                      TranslationUnitScan
                        [''clang'', ''-c'', ''Input.h'', ''-iframework'', ''/Frameworks'', ''-I'',
                         ''/usr/include/foo'', ''-gmodules'']
                        ''/cwd'']\<rparr>))"
  using example_first_call [where commandLine = "[]" and files = "[]" and requests = "[]"]
        example_first_call
          [where commandLine = "[''-frontend'', ''-emit-pch'', ''-direct-clang-cc1-module-build'',
                                 ''-Xcc'', ''-cc1'', ''-cache-compile-job'']"
             and files = "[]"
             and requests = "[TranslationUnitScan
                                [''clang'', ''-c'', ''Input.h'', ''-iframework'', ''/Frameworks'',
                                 ''-I'', ''/usr/include/foo'', ''-gmodules'']
                                ''/cwd'']"]
  by simp

subsection \<open>The command line of a dependency scan\<close>

lemma std_find_if_append_found:
  "std_find_if p xs < length xs \<Longrightarrow> std_find_if p (xs @ ys) = std_find_if p xs"
  by (induction xs) auto

lemma erase_append:
  "last_pos \<le> length xs \<Longrightarrow> first_pos \<le> last_pos \<Longrightarrow>
   erase (xs @ ys) first_pos last_pos = erase xs first_pos last_pos @ ys"
  by (simp add: erase_def)

lemma addSearchPathInvocationArguments_append:
  "addSearchPathInvocationArguments invocationArgStrs ctx =
     invocationArgStrs
     @ concat (map (\<lambda>framepath. [if IsSystem framepath then ''-iframework'' else ''-F'',
                                  Path framepath])
                   (FrameworkSearchPaths ctx))
     @ concat (map (\<lambda>path. [''-I'', path]) (ImportSearchPaths ctx))
     @ map (\<lambda>arg. ''-fdepscan-prefix-map='' @ arg) (ScannerPrefixMapper ctx)"
proof -
  have m: "fold (\<lambda>arg acc. acc @ [f arg]) xs a = a @ map f xs" for f :: "string \<Rightarrow> string" and xs a
    by (induction xs arbitrary: a) auto
  show ?thesis
    by (simp add: addSearchPathInvocationArguments_def Let_def fold_push_back m)
qed

lemma getClangDepScanningInvocationArguments_edits_driver_arguments:
  assumes i: "i = std_find (ClangDriverArguments ctx) ''<swift-imported-modules>''"
      and i_found: "i < length (ClangDriverArguments ctx)"
      and e1: "edited1 = (case sourceFileName of
                            Some name \<Rightarrow> (ClangDriverArguments ctx)[i := name]
                          | None \<Rightarrow> erase (ClangDriverArguments ctx) i (Suc i))"
      and j: "j = std_find_if (\<lambda>arg. prefix ''-fmodule-format='' arg) edited1"
      and j_pos: "0 < j" and j_found: "j < length edited1"
      and e2: "edited2 = erase edited1 (j - 1) (j + 1)"
      and k: "k = std_find edited2 ''-fsyntax-only''" and k_found: "k < length edited2"
  shows "getClangDepScanningInvocationArguments ctx sourceFileName =
           Inr (edited2[k := ''-c'']
                @ concat (map (\<lambda>framepath. [if IsSystem framepath then ''-iframework'' else ''-F'',
                                             Path framepath])
                              (FrameworkSearchPaths ctx))
                @ concat (map (\<lambda>path. [''-I'', path]) (ImportSearchPaths ctx))
                @ map (\<lambda>arg. ''-fdepscan-prefix-map='' @ arg) (ScannerPrefixMapper ctx)
                @ [''-gmodules''])"
proof -
  let ?drv = "ClangDriverArguments ctx"
  define search where "search =
     concat (map (\<lambda>framepath. [if IsSystem framepath then ''-iframework'' else ''-F'',
                                  Path framepath])
                   (FrameworkSearchPaths ctx))
     @ concat (map (\<lambda>path. [''-I'', path]) (ImportSearchPaths ctx))
     @ map (\<lambda>arg. ''-fdepscan-prefix-map='' @ arg) (ScannerPrefixMapper ctx)"
  have args0: "addSearchPathInvocationArguments ?drv ctx = ?drv @ search"
    by (simp add: addSearchPathInvocationArguments_append search_def)
  have pos0: "std_find (?drv @ search) ''<swift-imported-modules>'' = i"
    using i i_found by (simp add: std_find_def std_find_if_append_found)
  have args1: "(case sourceFileName of
                  Some name \<Rightarrow> (?drv @ search)[i := name]
                | None \<Rightarrow> erase (?drv @ search) i (Suc i)) = edited1 @ search"
    using i_found e1 by (cases sourceFileName) (simp_all add: list_update_append erase_append)
  have pos1: "std_find_if (\<lambda>arg. prefix ''-fmodule-format='' arg) (edited1 @ search) = j"
    using j j_found by (simp add: std_find_if_append_found)
  have args2: "erase (edited1 @ search) (j - 1) (j + 1) = edited2 @ search"
    using j_found e2 by (simp add: erase_append)
  have pos2: "std_find (edited2 @ search) ''-fsyntax-only'' = k"
    using k k_found by (simp add: std_find_def std_find_if_append_found)
  have upd: "(edited2 @ search)[k := ''-c''] = edited2[k := ''-c''] @ search"
    using k_found by (simp add: list_update_append)
  have "getClangDepScanningInvocationArguments ctx sourceFileName
          = Inr (edited2[k := ''-c''] @ search @ [''-gmodules''])"
    unfolding getClangDepScanningInvocationArguments_def args0 Let_def pos0 args1 pos1 args2
      pos2 upd
    using i_found j_pos j_found k_found by simp
  then show ?thesis by (simp add: search_def)
qed

lemma source_file_survives_edits:
  assumes e1: "edited1 = drv[i := name]" and i_found: "i < length drv"
      and j: "j = std_find_if (\<lambda>arg. prefix ''-fmodule-format='' arg) edited1"
      and j_pos: "0 < j" and j_found: "j < length edited1"
      and e2: "edited2 = erase edited1 (j - 1) (j + 1)"
      and k: "k = std_find edited2 ''-fsyntax-only''" and k_found: "k < length edited2"
      and name: "\<not> prefix ''-fmodule-format='' name" "name \<noteq> ''-fsyntax-only''"
      and apart: "Suc i \<noteq> j"
  shows "(edited2[k := ''-c'']) ! (if i < j then i else i - 2) = name"
proof -
  let ?p = "if i < j then i else i - 2"
  have at_i: "edited1 ! i = name" using e1 i_found by simp
  have "prefix ''-fmodule-format='' (edited1 ! j)"
    using std_find_if_hit [of "\<lambda>arg. prefix ''-fmodule-format='' arg" edited1] j j_found
    by simp
  with at_i name(1) have "i \<noteq> j" by auto
  have len: "length edited1 = length drv" using e1 by simp
  have p: "edited2 ! ?p = name \<and> ?p < length edited2"
  proof (cases "i < j")
    case True
    with apart have "i < j - 1" by simp
    with j_found at_i True show ?thesis
      by (auto simp: e2 erase_def nth_append)
  next
    case False
    with \<open>i \<noteq> j\<close> have "j < i" by simp
    with j_pos j_found i_found len at_i False have "edited2 ! (i - 2) = name"
      by (auto simp: e2 erase_def nth_append min_def)
    moreover from \<open>j < i\<close> j_pos j_found i_found len have "i - 2 < length edited2"
      by (auto simp: e2 erase_def)
    ultimately show ?thesis using False by simp
  qed
  have "edited2 ! k = ''-fsyntax-only''"
    using std_find_if_hit [of "\<lambda>x. x = ''-fsyntax-only''" edited2] k k_found
    by (simp add: std_find_def)
  with p name(2) have "k \<noteq> ?p" by auto
  with p show ?thesis by simp
qed


text \<open>
  C6, as amended. The command line of a scan, for driver arguments that satisfy the three assertions
  by themselves: the edits fall inside the driver arguments, and the search path flags
  follow them untouched, \<open>-iframework\<close> or \<open>-F\<close> with each framework path and
  \<open>-I\<close> with each import path, then the prefix maps and \<open>-gmodules\<close>. In the driver
  arguments the first placeholder is replaced by the source file (erased when there is
  none), then the first \<open>-fmodule-format=\<close> argument and the one before it are removed,
  then the first \<open>-fsyntax-only\<close> becomes \<open>-c\<close>. The source file is in the result
  at the placeholder's position, moved by the two removed arguments when they precede
  it, unless it is itself the argument before \<open>-fmodule-format=\<close>.
\<close>

theorem scan_invocation_arguments:
  assumes "i = std_find (ClangDriverArguments ctx) ''<swift-imported-modules>''"
      and "i < length (ClangDriverArguments ctx)"
      and "edited1 = (case sourceFileName of
                        Some name \<Rightarrow> (ClangDriverArguments ctx)[i := name]
                      | None \<Rightarrow> erase (ClangDriverArguments ctx) i (Suc i))"
      and "j = std_find_if (\<lambda>arg. prefix ''-fmodule-format='' arg) edited1"
      and "0 < j" and "j < length edited1"
      and "edited2 = erase edited1 (j - 1) (j + 1)"
      and "k = std_find edited2 ''-fsyntax-only''" and "k < length edited2"
  shows "getClangDepScanningInvocationArguments ctx sourceFileName =
           Inr (edited2[k := ''-c'']
                @ concat (map (\<lambda>framepath. [if IsSystem framepath then ''-iframework'' else ''-F'',
                                             Path framepath])
                              (FrameworkSearchPaths ctx))
                @ concat (map (\<lambda>path. [''-I'', path]) (ImportSearchPaths ctx))
                @ map (\<lambda>arg. ''-fdepscan-prefix-map='' @ arg) (ScannerPrefixMapper ctx)
                @ [''-gmodules''])
         \<and> (\<forall>name. sourceFileName = Some name \<and> \<not> prefix ''-fmodule-format='' name
                    \<and> name \<noteq> ''-fsyntax-only'' \<and> Suc i \<noteq> j
                \<longrightarrow> (edited2[k := ''-c'']) ! (if i < j then i else i - 2) = name)"
proof (intro conjI allI impI)
  show "getClangDepScanningInvocationArguments ctx sourceFileName =
           Inr (edited2[k := ''-c'']
                @ concat (map (\<lambda>framepath. [if IsSystem framepath then ''-iframework'' else ''-F'',
                                             Path framepath])
                              (FrameworkSearchPaths ctx))
                @ concat (map (\<lambda>path. [''-I'', path]) (ImportSearchPaths ctx))
                @ map (\<lambda>arg. ''-fdepscan-prefix-map='' @ arg) (ScannerPrefixMapper ctx)
                @ [''-gmodules''])"
    using assms by (rule getClangDepScanningInvocationArguments_edits_driver_arguments)
next
  fix name
  assume a: "sourceFileName = Some name \<and> \<not> prefix ''-fmodule-format='' name
                    \<and> name \<noteq> ''-fsyntax-only'' \<and> Suc i \<noteq> j"
  with assms(3) have e1: "edited1 = (ClangDriverArguments ctx)[i := name]" by simp
  from a show "(edited2[k := ''-c'']) ! (if i < j then i else i - 2) = name"
    by (intro source_file_survives_edits [OF e1 assms(2) assms(4-9)]) simp_all
qed

theorem scan_invocation_arguments_witness:
  "(4::nat) = std_find (ClangDriverArguments exampleContext) ''<swift-imported-modules>''
   \<and> (4::nat) < length (ClangDriverArguments exampleContext)
   \<and> [''clang'', ''-fsyntax-only'', ''-Xclang'', ''-fmodule-format=obj'', ''Input.h'']
       = (ClangDriverArguments exampleContext)[4 := ''Input.h'']
   \<and> (3::nat) = std_find_if (\<lambda>arg. prefix ''-fmodule-format='' arg)
                   [''clang'', ''-fsyntax-only'', ''-Xclang'', ''-fmodule-format=obj'', ''Input.h'']
   \<and> [''clang'', ''-fsyntax-only'', ''Input.h'']
       = erase [''clang'', ''-fsyntax-only'', ''-Xclang'', ''-fmodule-format=obj'', ''Input.h'']
           (3 - 1) (3 + 1)
   \<and> (1::nat) = std_find [''clang'', ''-fsyntax-only'', ''Input.h''] ''-fsyntax-only''
   \<and> getClangDepScanningInvocationArguments exampleContext (Some ''Input.h'')
       = Inr [''clang'', ''-c'', ''Input.h'', ''-iframework'', ''/Frameworks'',
              ''-I'', ''/usr/include/foo'', ''-gmodules'']
   \<and> [''clang'', ''-c'', ''Input.h''] ! 2 = ''Input.h''"
proof -
  have h1: "(4::nat) = std_find (ClangDriverArguments exampleContext) ''<swift-imported-modules>''"
    by (simp add: exampleContext_def std_find_def)
  have h2: "(4::nat) < length (ClangDriverArguments exampleContext)"
    by (simp add: exampleContext_def)
  have h3: "[''clang'', ''-fsyntax-only'', ''-Xclang'', ''-fmodule-format=obj'', ''Input.h'']
       = (case Some ''Input.h'' of
            Some name \<Rightarrow> (ClangDriverArguments exampleContext)[4 := name]
          | None \<Rightarrow> erase (ClangDriverArguments exampleContext) 4 (Suc 4))"
    by (simp add: exampleContext_def)
  have h4: "(3::nat) = std_find_if (\<lambda>arg. prefix ''-fmodule-format='' arg)
                   [''clang'', ''-fsyntax-only'', ''-Xclang'', ''-fmodule-format=obj'', ''Input.h'']"
    by simp
  have h5: "[''clang'', ''-fsyntax-only'', ''Input.h'']
       = erase [''clang'', ''-fsyntax-only'', ''-Xclang'', ''-fmodule-format=obj'', ''Input.h'']
           (3 - 1) (3 + 1)"
    by (simp add: erase_def)
  have h6: "(1::nat) = std_find [''clang'', ''-fsyntax-only'', ''Input.h''] ''-fsyntax-only''"
    by (simp add: std_find_def)
  have h3': "[''clang'', ''-fsyntax-only'', ''-Xclang'', ''-fmodule-format=obj'', ''Input.h'']
       = (ClangDriverArguments exampleContext)[4 := ''Input.h'']"
    by (simp add: exampleContext_def)
  have c: "getClangDepScanningInvocationArguments exampleContext (Some ''Input.h'')
       = Inr [''clang'', ''-c'', ''Input.h'', ''-iframework'', ''/Frameworks'',
              ''-I'', ''/usr/include/foo'', ''-gmodules'']
   \<and> [''clang'', ''-c'', ''Input.h''] ! 2 = ''Input.h''"
    using scan_invocation_arguments [OF h1 h2 h3 h4 _ _ h5 h6]
    by (simp add: exampleContext_def)
  show ?thesis
    by (intro conjI h1 h2 h3' h4 h5 h6 conjunct1 [OF c] conjunct2 [OF c])
qed

text \<open>
  With the placeholder directly before the \<open>-fmodule-format=\<close> argument the three
  assertions pass and the source file, put in the placeholder's position, is removed
  with that argument: \<open>Input.h\<close> is not in the result.
\<close>

theorem scan_invocation_arguments_counterexample:
  "getClangDepScanningInvocationArguments
     (exampleContext\<lparr>ClangDriverArguments :=
        [''clang'', ''-fsyntax-only'', ''<swift-imported-modules>'',
         ''-fmodule-format=obj'']\<rparr>)
     (Some ''Input.h'')
   = Inr [''clang'', ''-c'', ''-iframework'', ''/Frameworks'', ''-I'', ''/usr/include/foo'',
          ''-gmodules'']
   \<and> ''Input.h'' \<notin> set [''clang'', ''-c'', ''-iframework'', ''/Frameworks'', ''-I'',
                          ''/usr/include/foo'', ''-gmodules'']"
  by (simp add: getClangDepScanningInvocationArguments_def addSearchPathInvocationArguments_def
      exampleContext_def std_find_def erase_def Let_def)

end
